theory Spec2Isabelle
  imports Complex_Main
begin

section \<open>Data model (types/analysis)\<close>

text \<open>
  The component is a React function component whose logic lives in a handful of closures:
  \<^verbatim>\<open>validateUrl\<close>, \<^verbatim>\<open>findAllPages\<close>, \<^verbatim>\<open>analyzePageForProducts\<close>, \<^verbatim>\<open>analyzeWebsite\<close>
  and \<^verbatim>\<open>exportResults\<close>. Two versions of the component are part of the repository: the
  multi-page crawl and the single-page combined text and screenshot analysis.

  A JavaScript \<^verbatim>\<open>number\<close> that holds a product count or a 0 to 100 confidence score is
  modelled as a natural number; quotients are taken in the reals and rounded as
  \<^verbatim>\<open>Math.round\<close> does. Strings are lists of characters with codes below 256; case
  folding acts on the ASCII letters, which is all the filters of the component look at.
\<close>

datatype page_status = Completed | Failed | Skipped

datatype overall_status = ResCompleted | ResPartial | ResFailed

record PageAnalysis =
  url :: string
  productCount :: nat
  categories :: "string list"
  confidence :: nat
  evidence :: "string list"
  pageType :: string
  title :: string
  status :: page_status
  errorMessage :: "string option"

record Details =
  details_totalProducts :: nat
  productsByCategory :: "string \<rightharpoonup> nat"
  analysisMethod :: string
  details_confidence :: nat
  details_pageBreakdown :: "string \<rightharpoonup> nat"

record AnalysisResult =
  totalProductCount :: nat
  pagesAnalyzed :: nat
  pageResults :: "PageAnalysis list"
  sitemap :: "string list"
  summary :: string
  overallStatus :: overall_status
  details :: Details

text \<open>A thrown JavaScript \<^verbatim>\<open>Error\<close>; only its message is ever read.\<close>

datatype error = Error (message: string)

section \<open>JavaScript library functions used by the component\<close>

definition startsWith :: "string \<Rightarrow> string \<Rightarrow> bool" where
  "startsWith s p = (take (length p) s = p)"

fun str_includes :: "string \<Rightarrow> string \<Rightarrow> bool" where
  "str_includes [] p = (p = [])"
| "str_includes (c # cs) p = (startsWith (c # cs) p \<or> str_includes cs p)"

definition lower_char :: "char \<Rightarrow> char" where
  "lower_char c =
     (if 65 \<le> (of_char c :: nat) \<and> (of_char c :: nat) \<le> 90
      then char_of ((of_char c :: nat) + 32) else c)"

definition toLowerCase :: "string \<Rightarrow> string" where
  "toLowerCase s = map lower_char s"

definition is_digit :: "char \<Rightarrow> bool" where
  "is_digit c = (48 \<le> (of_char c :: nat) \<and> (of_char c :: nat) \<le> 57)"

text \<open>\<^verbatim>\<open>path.match(/\/\d+/)\<close>: a slash directly followed by a digit occurs somewhere.\<close>

fun has_slash_digit :: "string \<Rightarrow> bool" where
  "has_slash_digit (c # d # cs) = ((c = CHR ''/'' \<and> is_digit d) \<or> has_slash_digit (d # cs))"
| "has_slash_digit _ = False"

text \<open>White space and line terminators that \<^verbatim>\<open>trim\<close> removes, among 8-bit characters.\<close>

definition is_space :: "char \<Rightarrow> bool" where
  "is_space c = ((of_char c :: nat) \<in> {9, 10, 11, 12, 13, 32, 160})"

definition trim :: "string \<Rightarrow> string" where
  "trim s = rev (dropWhile is_space (rev (dropWhile is_space s)))"

fun join :: "string \<Rightarrow> string list \<Rightarrow> string" where
  "join sep [] = []"
| "join sep [x] = x"
| "join sep (x # y # ys) = x @ sep @ join sep (y # ys)"

text \<open>Decimal rendering of a count, as \<^verbatim>\<open>toString\<close> and template literals give it.\<close>

fun toString :: "nat \<Rightarrow> string" where
  "toString n =
     (if n < 10 then [char_of (48 + n)]
      else toString (n div 10) @ [char_of (48 + n mod 10)])"

declare toString.simps [simp del]

text \<open>\<^verbatim>\<open>Math.round\<close>: the nearest integer, a half rounding up.\<close>

definition Math_round :: "real \<Rightarrow> int" where
  "Math_round x = \<lfloor>x + 1 / 2\<rfloor>"

text \<open>
  A \<^verbatim>\<open>Set<string>\<close> keeps insertion order and ignores a value already present; it is a
  duplicate-free list here, \<^verbatim>\<open>add\<close> appending at the end.
\<close>

definition set_add :: "string list \<Rightarrow> string \<Rightarrow> string list" where
  "set_add xs x = (if x \<in> set xs then xs else xs @ [x])"

text \<open>Defaults written with \<^verbatim>\<open>||\<close>: a missing, zero or empty value gives the default.\<close>

definition or_zero :: "nat option \<Rightarrow> nat" where
  "or_zero x = (case x of None \<Rightarrow> 0 | Some n \<Rightarrow> n)"

definition or_empty :: "string list option \<Rightarrow> string list" where
  "or_empty x = (case x of None \<Rightarrow> [] | Some xs \<Rightarrow> xs)"

definition or_default :: "string option \<Rightarrow> string \<Rightarrow> string" where
  "or_default x d = (case x of None \<Rightarrow> d | Some s \<Rightarrow> if s = [] then d else s)"

section \<open>The platform and the external services\<close>

text \<open>
  \<^verbatim>\<open>new URL(u)\<close> and \<^verbatim>\<open>new URL(u, base)\<close> belong to the browser: the parser is a
  parameter, \<open>None\<close> standing for the \<^verbatim>\<open>TypeError\<close> it throws on an invalid URL.
\<close>

record URL =
  hostname :: string
  pathname :: string
  href :: string

record scrape_result =
  markdown :: "string option"
  metadata_title :: "string option"
  links :: "string list option"

record fetch_response =
  response_status :: nat
  response_body :: string

text \<open>
  The object returned by \<^verbatim>\<open>generateObject\<close> for the per-page schema. The component
  guards each field it reads with \<^verbatim>\<open>||\<close>, so each may be missing.
\<close>

record page_object =
  obj_productCount :: "nat option"
  obj_pageType :: "string option"
  obj_categories :: "string list option"
  obj_confidence :: "nat option"
  obj_evidence :: "string list option"

text \<open>
  The objects of the single-page flow: the text analysis and the visual analysis. A field
  only ever read behind \<^verbatim>\<open>||\<close> or \<^verbatim>\<open>&&\<close> may be missing; the others are read
  unguarded and are present, as the schema requires.
\<close>

record text_object =
  txt_totalProducts :: "nat option"
  txt_productsOnThisPage :: nat
  txt_categories :: "string list"
  txt_confidence :: nat
  txt_evidence :: "string list"
  txt_reasoning :: string
  txt_estimatedTotalFromPagination :: "nat option"

record visual_object =
  visualProductCount :: nat
  visualEvidence :: "string list"
  layoutType :: "string option"
  vis_confidence :: nat

text \<open>
  Every request to the hosted platform is recorded, in order. A prompt is recorded by the
  values interpolated into its fixed instruction text: the page URL, the title and the
  content excerpt (or the screenshot reference for the visual prompt).
\<close>

datatype call =
    Scrape string
  | Fetch string
  | Screenshot string
  | GenerateObject string string string
  | GenerateVisual string
  | DbCreate string string
  | DbUpdate nat
  | DbList

text \<open>
  The services answer as they please: each answer may depend on the requests made so far
  as well as on the request itself, and each request may fail with an error.
\<close>

record env =
  new_URL :: "string \<Rightarrow> string option \<Rightarrow> URL option"
  scrape :: "call list \<Rightarrow> string \<Rightarrow> error + scrape_result"
  fetch :: "call list \<Rightarrow> string \<Rightarrow> error + fetch_response"
  screenshot :: "call list \<Rightarrow> string \<Rightarrow> error + string"
  generatePageObject :: "call list \<Rightarrow> string \<Rightarrow> string \<Rightarrow> string \<Rightarrow> error + page_object"
  generateTextObject :: "call list \<Rightarrow> string \<Rightarrow> string \<Rightarrow> string \<Rightarrow> error + text_object"
  generateVisualObject :: "call list \<Rightarrow> string \<Rightarrow> error + visual_object"
  db_create :: "call list \<Rightarrow> string \<Rightarrow> string \<Rightarrow> error + unit"
  db_update :: "call list \<Rightarrow> nat \<Rightarrow> error + unit"
  db_list :: "call list \<Rightarrow> error + unit"

section \<open>validateUrl\<close>

definition validateUrl :: "env \<Rightarrow> string \<Rightarrow> error + string" where
  "validateUrl E u =
     (let u' = (if \<not> startsWith u ''http://'' \<and> \<not> startsWith u ''https://''
                then ''https://'' @ u else u)
      in case new_URL E u' None of
           None \<Rightarrow> Inl (Error ''Please enter a valid website URL'')
         | Some parsed \<Rightarrow> Inr u')"

section \<open>findAllPages\<close>

text \<open>The filter applied to each link of the homepage (the body of \<^verbatim>\<open>links.forEach\<close>).\<close>

definition link_path_ok :: "string \<Rightarrow> bool" where
  "link_path_ok path =
     (str_includes path ''/product'' \<or>
      str_includes path ''/item'' \<or>
      str_includes path ''/shop'' \<or>
      str_includes path ''/store'' \<or>
      str_includes path ''/category'' \<or>
      str_includes path ''/collection'' \<or>
      str_includes path ''/catalog'' \<or>
      str_includes path ''/p/'' \<or>
      str_includes path ''/products/'' \<or>
      str_includes path ''/items/'' \<or>
      has_slash_digit path \<or>
      str_includes path ''page='' \<or>
      length path > 3)"

definition add_link :: "env \<Rightarrow> string \<Rightarrow> string \<Rightarrow> string list \<Rightarrow> string \<Rightarrow> string list" where
  "add_link E baseUrl domain allPages link =
     (case new_URL E link (Some baseUrl) of
        None \<Rightarrow> allPages
      | Some linkUrl \<Rightarrow>
          if hostname linkUrl = domain \<and> link_path_ok (toLowerCase (pathname linkUrl))
          then set_add allPages (href linkUrl) else allPages)"

text \<open>
  \<^verbatim>\<open>sitemapText.match(/<loc>(.*?)<\/loc>/g)\<close>: the matches from left to right, each
  the shortest run from an opening tag to the next closing tag on the same line.
\<close>

definition is_line_terminator :: "char \<Rightarrow> bool" where
  "is_line_terminator c = ((of_char c :: nat) = 10 \<or> (of_char c :: nat) = 13)"

fun loc_body :: "string \<Rightarrow> (string \<times> string) option" where
  "loc_body [] = None"
| "loc_body (c # cs) =
     (if startsWith (c # cs) ''</loc>'' then Some ([], drop 5 cs)
      else if is_line_terminator c then None
      else (case loc_body cs of None \<Rightarrow> None | Some (b, rest) \<Rightarrow> Some (c # b, rest)))"

function loc_matches :: "string \<Rightarrow> string list" where
  "loc_matches [] = []"
| "loc_matches (c # cs) =
     (if startsWith (c # cs) ''<loc>'' then
        (case loc_body (drop 4 cs) of
           None \<Rightarrow> loc_matches cs
         | Some (b, rest) \<Rightarrow> (''<loc>'' @ b @ ''</loc>'') # loc_matches rest)
      else loc_matches cs)"
  by pat_completeness auto
termination
proof (relation "measure length")
  show "wf (measure length)" by simp
next
  fix c :: char and cs :: string
  show "(cs, c # cs) \<in> measure length" by simp
next
  fix c :: char and cs x2 x y :: string and p
  assume "loc_body (drop 4 cs) = Some p" and "(x, y) = p"
  then have body: "loc_body (drop 4 cs) = Some (x, y)" by simp
  have shorter: "length rest < length s" if "loc_body s = Some (b, rest)" for s b rest
    using that by (induction s arbitrary: b rest) (auto split: if_splits option.splits)
  from shorter [OF body] have "length y < length (drop 4 cs)" .
  then show "(y, c # cs) \<in> measure length" by simp
next
  fix c :: char and cs :: string
  show "(cs, c # cs) \<in> measure length" by simp
qed

text \<open>\<^verbatim>\<open>match.replace(/<\/?loc>/g, '')\<close>: every opening and closing tag is removed.\<close>

fun strip_loc_tags :: "string \<Rightarrow> string" where
  "strip_loc_tags [] = []"
| "strip_loc_tags (c # cs) =
     (if startsWith (c # cs) ''<loc>'' then strip_loc_tags (drop 4 cs)
      else if startsWith (c # cs) ''</loc>'' then strip_loc_tags (drop 5 cs)
      else c # strip_loc_tags cs)"

definition add_sitemap_url :: "env \<Rightarrow> string \<Rightarrow> string list \<Rightarrow> string \<Rightarrow> string list" where
  "add_sitemap_url E domain allPages m =
     (let u = trim (strip_loc_tags m)
      in case new_URL E u None of
           None \<Rightarrow> allPages
         | Some urlObj \<Rightarrow> if hostname urlObj = domain then set_add allPages u else allPages)"

text \<open>
  The loop over the three conventional sitemap paths: a request that fails, or answers
  without status 200 and a non-empty body, moves on to the next path; the first sitemap
  found ends the loop.
\<close>

fun try_sitemaps :: "env \<Rightarrow> string \<Rightarrow> string list \<Rightarrow> string list \<times> call list
    \<Rightarrow> string list \<times> call list" where
  "try_sitemaps E domain [] (allPages, tr) = (allPages, tr)"
| "try_sitemaps E domain (sitemapUrl # others) (allPages, tr) =
     (case fetch E tr sitemapUrl of
        Inl e \<Rightarrow> try_sitemaps E domain others (allPages, tr @ [Fetch sitemapUrl])
      | Inr response \<Rightarrow>
          if response_status response = 200 \<and> response_body response \<noteq> []
          then (foldl (add_sitemap_url E domain) allPages (loc_matches (response_body response)),
                tr @ [Fetch sitemapUrl])
          else try_sitemaps E domain others (allPages, tr @ [Fetch sitemapUrl]))"

definition is_product_page :: "string \<Rightarrow> bool" where
  "is_product_page u =
     (let path = toLowerCase u
      in str_includes path ''/product'' \<or> str_includes path ''/item'' \<or> str_includes path ''/p/'')"

definition is_category_page :: "string \<Rightarrow> bool" where
  "is_category_page u =
     (let path = toLowerCase u
      in str_includes path ''/category'' \<or> str_includes path ''/collection'' \<or>
         str_includes path ''/shop'')"

definition prioritize :: "string list \<Rightarrow> string list" where
  "prioritize pages =
     (let productPages = filter is_product_page pages;
          categoryPages = filter is_category_page pages;
          otherPages = filter (\<lambda>u. u \<notin> set productPages \<and> u \<notin> set categoryPages) pages
      in take 30 (take 15 productPages @ take 10 categoryPages @ take 5 otherPages))"

definition findAllPages :: "env \<Rightarrow> call list \<Rightarrow> string \<Rightarrow> string list \<times> call list" where
  "findAllPages E tr baseUrl =
     (case new_URL E baseUrl None of
        None \<Rightarrow> ([baseUrl], tr)
      | Some parsed \<Rightarrow>
          (case scrape E tr baseUrl of
             Inl e \<Rightarrow> ([baseUrl], tr @ [Scrape baseUrl])
           | Inr scraped \<Rightarrow>
               let domain = hostname parsed;
                   allPages = (case links scraped of
                                 None \<Rightarrow> [baseUrl]
                               | Some ls \<Rightarrow> foldl (add_link E baseUrl domain) [baseUrl] ls);
                   sitemapUrls = [baseUrl @ ''/sitemap.xml'',
                                  baseUrl @ ''/sitemap_index.xml'',
                                  baseUrl @ ''/product-sitemap.xml''];
                   (pages, tr') = try_sitemaps E domain sitemapUrls (allPages, tr @ [Scrape baseUrl])
               in (prioritize pages, tr')))"

section \<open>analyzePageForProducts\<close>

definition content_missing :: "string option \<Rightarrow> bool" where
  "content_missing md = (case md of None \<Rightarrow> True | Some text \<Rightarrow> text = [] \<or> length text < 100)"

text \<open>The \<^verbatim>\<open>catch\<close> block: whatever was thrown becomes a failed page.\<close>

definition page_failed :: "string \<Rightarrow> error \<Rightarrow> PageAnalysis" where
  "page_failed pageUrl e =
     \<lparr>url = pageUrl, productCount = 0, categories = [], confidence = 0,
      evidence = [''Analysis failed: '' @ message e], pageType = ''unknown'',
      title = ''Unknown'', status = Failed, errorMessage = Some (message e)\<rparr>"

definition analyzePageForProducts ::
    "env \<Rightarrow> call list \<Rightarrow> string \<Rightarrow> nat \<Rightarrow> nat \<Rightarrow> PageAnalysis \<times> call list" where
  "analyzePageForProducts E tr pageUrl pageIndex totalPages =
     (case scrape E tr pageUrl of
        Inl e \<Rightarrow> (page_failed pageUrl e, tr @ [Scrape pageUrl])
      | Inr scraped \<Rightarrow>
          if content_missing (markdown scraped) then
            (\<lparr>url = pageUrl, productCount = 0, categories = [], confidence = 0,
              evidence = [''No content could be scraped from this page''],
              pageType = ''unknown'',
              title = or_default (metadata_title scraped) ''Unknown'',
              status = Failed,
              errorMessage = Some ''Could not scrape page content''\<rparr>,
             tr @ [Scrape pageUrl])
          else
            let pageTitle = or_default (metadata_title scraped) ''Unknown'';
                excerpt = take 20000 (the (markdown scraped));
                tr' = tr @ [Scrape pageUrl]
            in (case generatePageObject E tr' pageUrl pageTitle excerpt of
                  Inl e \<Rightarrow>
                    (page_failed pageUrl e, tr' @ [GenerateObject pageUrl pageTitle excerpt])
                | Inr analysis \<Rightarrow>
                    (\<lparr>url = pageUrl,
                      productCount = or_zero (obj_productCount analysis),
                      categories = or_empty (obj_categories analysis),
                      confidence = or_zero (obj_confidence analysis),
                      evidence = or_empty (obj_evidence analysis),
                      pageType = or_default (obj_pageType analysis) ''unknown'',
                      title = pageTitle,
                      status = Completed,
                      errorMessage = None\<rparr>,
                     tr' @ [GenerateObject pageUrl pageTitle excerpt])))"

section \<open>analyzeWebsite, multi-page flow\<close>

text \<open>
  The loop over the discovered pages. Its state is the list of page results, the running
  total, the set of categories seen and the requests made; the one-second pause after each
  page changes none of them.
\<close>

fun analyze_pages :: "env \<Rightarrow> nat \<Rightarrow> string list \<Rightarrow> nat
    \<Rightarrow> PageAnalysis list \<times> nat \<times> string list \<times> call list
    \<Rightarrow> PageAnalysis list \<times> nat \<times> string list \<times> call list" where
  "analyze_pages E n [] i st = st"
| "analyze_pages E n (pageUrl # rest) i (results, totalProducts, allCategories, tr) =
     (let (pageAnalysis, tr') = analyzePageForProducts E tr pageUrl i n;
          results' = results @ [pageAnalysis]
      in if status pageAnalysis = Completed
         then analyze_pages E n rest (i + 1)
                (results', totalProducts + productCount pageAnalysis,
                 foldl set_add allCategories (categories pageAnalysis), tr')
         else analyze_pages E n rest (i + 1) (results', totalProducts, allCategories, tr'))"

text \<open>The two breakdown objects filled by \<^verbatim>\<open>pageResults.forEach\<close>.\<close>

definition breakdown_step ::
    "(string \<rightharpoonup> nat) \<times> (string \<rightharpoonup> nat) \<Rightarrow> PageAnalysis
     \<Rightarrow> (string \<rightharpoonup> nat) \<times> (string \<rightharpoonup> nat)" where
  "breakdown_step acc page =
     (if status page = Completed then
        (foldl (\<lambda>cb category. cb(category \<mapsto> or_zero (cb category) + productCount page))
           (fst acc) (categories page),
         (snd acc)(url page \<mapsto> productCount page))
      else acc)"

definition pagesAvgConfidence :: "PageAnalysis list \<Rightarrow> nat" where
  "pagesAvgConfidence results =
     (let successfulPages = length (filter (\<lambda>p. status p = Completed) results)
      in if successfulPages > 0
         then nat (Math_round
                (real (foldl (\<lambda>acc p. acc + confidence p) 0
                         (filter (\<lambda>p. status p = Completed) results))
                 / real successfulPages))
         else 0)"

definition finalResult :: "string list \<Rightarrow> PageAnalysis list \<Rightarrow> nat \<Rightarrow> AnalysisResult" where
  "finalResult discoveredPages results totalProducts =
     (let breakdowns = foldl breakdown_step (Map.empty, Map.empty) results;
          successfulPages = length (filter (\<lambda>p. status p = Completed) results);
          avgConfidence = pagesAvgConfidence results
      in \<lparr>totalProductCount = totalProducts,
          pagesAnalyzed = successfulPages,
          pageResults = results,
          sitemap = discoveredPages,
          summary = ''Found '' @ toString totalProducts @ '' products across ''
                    @ toString successfulPages @ '' pages. Analyzed ''
                    @ toString (length discoveredPages) @ '' pages total with ''
                    @ toString avgConfidence @ ''% average confidence.'',
          overallStatus = (if successfulPages > 0 then ResCompleted else ResFailed),
          details = \<lparr>details_totalProducts = totalProducts,
                     productsByCategory = fst breakdowns,
                     analysisMethod = ''Multi-page crawl with AI analysis per page'',
                     details_confidence = avgConfidence,
                     details_pageBreakdown = snd breakdowns\<rparr>\<rparr>)"

text \<open>
  \<^verbatim>\<open>loadHistory\<close> catches its own errors, so it only adds a request. The outcome of a run
  is either the error message shown (\<^verbatim>\<open>setError\<close>, the result staying \<^verbatim>\<open>null\<close>) or
  the result shown (\<^verbatim>\<open>setResult\<close>).
\<close>

definition loadHistory :: "env \<Rightarrow> call list \<Rightarrow> call list" where
  "loadHistory E tr = tr @ [DbList]"

definition error_shown :: "error \<Rightarrow> string" where
  "error_shown e = or_default (Some (message e)) ''Analysis failed. Please try again.''"

definition analyzeWebsite :: "env \<Rightarrow> call list \<Rightarrow> string \<Rightarrow> (string + AnalysisResult) \<times> call list" where
  "analyzeWebsite E tr input =
     (if trim input = [] then (Inl ''Please enter a website URL'', tr)
      else
        case validateUrl E (trim input) of
          Inl e \<Rightarrow> (Inl (error_shown e), tr)
        | Inr validatedUrl \<Rightarrow>
            (case db_create E tr validatedUrl ''analyzing'' of
               Inl e \<Rightarrow> (Inl (error_shown e), tr @ [DbCreate validatedUrl ''analyzing''])
             | Inr created \<Rightarrow>
                 let (discoveredPages, tr1) =
                       findAllPages E (tr @ [DbCreate validatedUrl ''analyzing'']) validatedUrl;
                     (results, totalProducts, allCategories, tr2) =
                       analyze_pages E (length discoveredPages) discoveredPages 0 ([], 0, [], tr1);
                     final = finalResult discoveredPages results totalProducts
                 in (case db_update E tr2 totalProducts of
                       Inl e \<Rightarrow> (Inl (error_shown e), tr2 @ [DbUpdate totalProducts])
                     | Inr updated \<Rightarrow> (Inr final, loadHistory E (tr2 @ [DbUpdate totalProducts])))))"

section \<open>analyzeWebsite, single-page combined flow\<close>

text \<open>Stage 4: the text-derived and the image-derived counts are reconciled.\<close>

definition finalProductCount :: "text_object \<Rightarrow> visual_object \<Rightarrow> nat" where
  "finalProductCount analysis visualAnalysis =
     (let count0 = or_zero (txt_totalProducts analysis);
          count1 = (case txt_estimatedTotalFromPagination analysis of
                      None \<Rightarrow> count0
                    | Some estimate \<Rightarrow>
                        if estimate \<noteq> 0 \<and> estimate > count0 then estimate else count0)
      in if visualProductCount visualAnalysis > txt_productsOnThisPage analysis
         then count1 + (visualProductCount visualAnalysis - txt_productsOnThisPage analysis)
         else count1)"

definition combinedAvgConfidence :: "text_object \<Rightarrow> visual_object \<Rightarrow> nat" where
  "combinedAvgConfidence analysis visualAnalysis =
     nat (Math_round (real (txt_confidence analysis + vis_confidence visualAnalysis) / 2))"

definition combinedResult ::
    "string \<Rightarrow> string \<Rightarrow> text_object \<Rightarrow> visual_object \<Rightarrow> AnalysisResult" where
  "combinedResult validatedUrl pageTitle analysis visualAnalysis =
     (let count = finalProductCount analysis visualAnalysis;
          avgConfidence = combinedAvgConfidence analysis visualAnalysis;
          pageAnalysis =
            \<lparr>url = validatedUrl,
             productCount = count,
             categories = txt_categories analysis,
             confidence = avgConfidence,
             evidence = txt_evidence analysis @ visualEvidence visualAnalysis,
             pageType = or_default (layoutType visualAnalysis) ''unknown'',
             title = pageTitle,
             status = Completed,
             errorMessage = None\<rparr>
      in \<lparr>totalProductCount = count,
          pagesAnalyzed = 1,
          pageResults = [pageAnalysis],
          sitemap = [validatedUrl],
          summary = ''Found '' @ toString count @ '' products. '' @ txt_reasoning analysis
                    @ '' Visual analysis: '' @ join '', '' (visualEvidence visualAnalysis) @ ''.'',
          overallStatus = ResCompleted,
          details = \<lparr>details_totalProducts = count,
                     productsByCategory =
                       foldl (\<lambda>acc cat. acc(cat \<mapsto> count)) Map.empty (txt_categories analysis),
                     analysisMethod = ''Combined text and visual AI analysis'',
                     details_confidence = avgConfidence,
                     details_pageBreakdown = Map.empty(validatedUrl \<mapsto> count)\<rparr>\<rparr>)"

text \<open>The body of the \<^verbatim>\<open>try\<close> block: any failure ends it with the error thrown.\<close>

definition single_try :: "env \<Rightarrow> call list \<Rightarrow> string \<Rightarrow> (error + AnalysisResult) \<times> call list" where
  "single_try E tr input =
     (case validateUrl E (trim input) of
        Inl e \<Rightarrow> (Inl e, tr)
      | Inr validatedUrl \<Rightarrow>
          let tr1 = tr @ [DbCreate validatedUrl ''analyzing''] in
          (case db_create E tr validatedUrl ''analyzing'' of
             Inl e \<Rightarrow> (Inl e, tr1)
           | Inr created \<Rightarrow>
               let tr2 = tr1 @ [Screenshot validatedUrl] in
               (case screenshot E tr1 validatedUrl of
                  Inl e \<Rightarrow> (Inl e, tr2)
                | Inr screenshotUrl \<Rightarrow>
                    let tr3 = tr2 @ [Scrape validatedUrl] in
                    (case scrape E tr2 validatedUrl of
                       Inl e \<Rightarrow> (Inl e, tr3)
                     | Inr scraped \<Rightarrow>
                         if content_missing (markdown scraped) then
                           (Inl (Error (''Could not scrape website content. ''
                                  @ ''The site may be protected or inaccessible.'')), tr3)
                         else
                           let pageTitle = or_default (metadata_title scraped) ''Unknown'';
                               excerpt = take 25000 (the (markdown scraped));
                               tr4 = tr3 @ [GenerateObject validatedUrl pageTitle excerpt]
                           in (case generateTextObject E tr3 validatedUrl pageTitle excerpt of
                                 Inl e \<Rightarrow> (Inl e, tr4)
                               | Inr analysis \<Rightarrow>
                                   let tr5 = tr4 @ [GenerateVisual screenshotUrl] in
                                   (case generateVisualObject E tr4 screenshotUrl of
                                      Inl e \<Rightarrow> (Inl e, tr5)
                                    | Inr visualAnalysis \<Rightarrow>
                                        let final = combinedResult validatedUrl pageTitle
                                                      analysis visualAnalysis;
                                            tr6 = tr5 @ [DbUpdate (totalProductCount final)]
                                        in (case db_update E tr5 (totalProductCount final) of
                                              Inl e \<Rightarrow> (Inl e, tr6)
                                            | Inr updated \<Rightarrow>
                                                (Inr final, loadHistory E tr6))))))))"

text \<open>
  The \<^verbatim>\<open>catch\<close> block shows the message and records a failed analysis for the raw input;
  a failure of that write is only logged.
\<close>

definition analyzeWebsite_single ::
    "env \<Rightarrow> call list \<Rightarrow> string \<Rightarrow> (string + AnalysisResult) \<times> call list" where
  "analyzeWebsite_single E tr input =
     (if trim input = [] then (Inl ''Please enter a website URL'', tr)
      else
        case single_try E tr input of
          (Inl e, tr') \<Rightarrow> (Inl (error_shown e), tr' @ [DbCreate input ''failed''])
        | (Inr final, tr') \<Rightarrow> (Inr final, tr'))"

section \<open>exportResults\<close>

record download =
  download_name :: string
  download_content :: string

definition status_string :: "page_status \<Rightarrow> string" where
  "status_string s = (case s of Completed \<Rightarrow> ''completed'' | Failed \<Rightarrow> ''failed'' | Skipped \<Rightarrow> ''skipped'')"

definition csv_header :: "string list" where
  "csv_header = [''Page URL'', ''Page Title'', ''Product Count'', ''Page Type'', ''Categories'',
                 ''Confidence'', ''Status'', ''Evidence'']"

definition csv_row :: "PageAnalysis \<Rightarrow> string list" where
  "csv_row page =
     [url page, title page, toString (productCount page), pageType page,
      join ''; '' (categories page), toString (confidence page),
      status_string (status page), join ''; '' (evidence page)]"

definition quote_cell :: "string \<Rightarrow> string" where
  "quote_cell cell = [CHR 0x22] @ cell @ [CHR 0x22]"

text \<open>
  The state variable \<^verbatim>\<open>result\<close> is \<open>None\<close> while it is \<^verbatim>\<open>null\<close>. The value returned is
  the file the click on the anchor element downloads, \<open>None\<close> when nothing is clicked;
  \<open>isoNow\<close> is the current time as \<^verbatim>\<open>toISOString\<close> prints it.
\<close>

definition exportResults :: "string \<Rightarrow> AnalysisResult option \<Rightarrow> download option" where
  "exportResults isoNow res =
     (case res of
        None \<Rightarrow> None
      | Some r \<Rightarrow>
          let csvData = csv_header # map csv_row (pageResults r);
              csvContent = join [CHR 0x0A] (map (\<lambda>row. join '','' (map quote_cell row)) csvData)
          in Some \<lparr>download_name = ''product-analysis-''
                                     @ takeWhile (\<lambda>c. c \<noteq> CHR ''T'') isoNow @ ''.csv'',
                   download_content = csvContent\<rparr>)"

section \<open>The properties, in the words of the specification\<close>

definition completed_pages :: "PageAnalysis list \<Rightarrow> PageAnalysis list" where
  "completed_pages results = filter (\<lambda>p. status p = Completed) results"

text \<open>The mean of the confidence values of a list of pages, 0 for the empty list.\<close>

definition mean_confidence :: "PageAnalysis list \<Rightarrow> real" where
  "mean_confidence ps =
     (if ps = [] then 0 else real (sum_list (map confidence ps)) / real (length ps))"

text \<open>
  The reconciliation of the single-page flow as the specification words it: start from the
  text-derived total; a pagination estimate that exceeds it replaces it; an image-derived
  count above the text-derived same-page count adds the difference.
\<close>

definition reconciled_count :: "nat \<Rightarrow> nat option \<Rightarrow> nat \<Rightarrow> nat \<Rightarrow> nat" where
  "reconciled_count textTotal estimate textOnPage visualOnPage =
     (let start = (case estimate of
                     None \<Rightarrow> textTotal
                   | Some e \<Rightarrow> if e > textTotal then e else textTotal)
      in if visualOnPage > textOnPage then start + (visualOnPage - textOnPage) else start)"

text \<open>The input of the validator with the scheme put in front where it is missing.\<close>

definition with_scheme :: "string \<Rightarrow> string" where
  "with_scheme u =
     (if take 7 u = ''http://'' \<or> take 8 u = ''https://'' then u else ''https://'' @ u)"

text \<open>One line of the exported file: every cell between double quotes, commas between.\<close>

definition csv_line :: "string list \<Rightarrow> string" where
  "csv_line row = join '','' (map quote_cell row)"

text \<open>The requests to the generative model among a list of requests.\<close>

definition model_calls :: "call list \<Rightarrow> call list" where
  "model_calls tr =
     filter (\<lambda>c. case c of GenerateObject u t x \<Rightarrow> True | GenerateVisual s \<Rightarrow> True | _ \<Rightarrow> False) tr"

definition scraped_urls :: "call list \<Rightarrow> string list" where
  "scraped_urls tr = concat (map (\<lambda>c. case c of Scrape u \<Rightarrow> [u] | _ \<Rightarrow> []) tr)"

section \<open>A concrete shop\<close>

text \<open>
  A small site to run the component on. Its URL parser knows absolute \<^verbatim>\<open>https\<close> URLs
  without spaces only;
  the homepage links to a product page, two pages that cannot be analysed, a page on which
  the model fails, a page of another host and a link that is no URL. The parameter is the
  confidence the model reports for the product page.
\<close>

definition shop_URL :: "string \<Rightarrow> string option \<Rightarrow> URL option" where
  "shop_URL u base =
     (if startsWith u ''https://'' \<and> length u > 8 \<and> CHR '' '' \<notin> set u then
        (let rest = drop 8 u; path = dropWhile (\<lambda>c. c \<noteq> CHR ''/'') rest
         in Some \<lparr>hostname = takeWhile (\<lambda>c. c \<noteq> CHR ''/'') rest,
                  pathname = (if path = [] then ''/'' else path),
                  href = u\<rparr>)
      else None)"

definition shop_scrape :: "call list \<Rightarrow> string \<Rightarrow> error + scrape_result" where
  "shop_scrape tr u =
     (if u = ''https://example.test'' then
        Inr \<lparr>markdown = Some (replicate 150 (CHR ''a'')), metadata_title = Some ''Shop'',
             links = Some [''https://example.test/products/1'', ''https://example.test/about-us'',
                           ''https://example.test/down'', ''https://example.test/items/9'',
                           ''https://other.test/products/2'', ''mailto:owner'']\<rparr>
      else if u = ''https://example.test/products/1'' \<or> u = ''https://example.test/items/9'' then
        Inr \<lparr>markdown = Some (replicate 120 (CHR ''b'')), metadata_title = None, links = None\<rparr>
      else if u = ''https://example.test/about-us'' then
        Inr \<lparr>markdown = Some ''About us'', metadata_title = Some ''About'', links = None\<rparr>
      else Inl (Error ''503 Service Unavailable''))"

definition shop_fetch :: "call list \<Rightarrow> string \<Rightarrow> error + fetch_response" where
  "shop_fetch tr u =
     (if u = ''https://example.test/sitemap.xml'' then Inl (Error ''network error'')
      else Inr \<lparr>response_status = 404, response_body = ''Not found''\<rparr>)"

definition shop_page_object :: "nat \<Rightarrow> call list \<Rightarrow> string \<Rightarrow> string \<Rightarrow> string \<Rightarrow> error + page_object" where
  "shop_page_object k tr pageUrl pageTitle excerpt =
     (if pageUrl = ''https://example.test'' then
        Inr \<lparr>obj_productCount = Some 4, obj_pageType = Some ''homepage'',
             obj_categories = Some [''toys''], obj_confidence = Some 80,
             obj_evidence = Some [''four product cards'']\<rparr>
      else if pageUrl = ''https://example.test/products/1'' then
        Inr \<lparr>obj_productCount = Some 6, obj_pageType = Some ''category'',
             obj_categories = Some [''toys'', ''games''], obj_confidence = Some k,
             obj_evidence = None\<rparr>
      else Inl (Error ''model overloaded''))"

definition shop_text_object :: "text_object" where
  "shop_text_object =
     \<lparr>txt_totalProducts = Some 5, txt_productsOnThisPage = 3, txt_categories = [''toys''],
      txt_confidence = 80, txt_evidence = [''prices''], txt_reasoning = ''Five listed.'',
      txt_estimatedTotalFromPagination = Some 20\<rparr>"

definition shop_visual_object :: "visual_object" where
  "shop_visual_object =
     \<lparr>visualProductCount = 5, visualEvidence = [''a grid'', ''price tags''],
      layoutType = Some ''homepage'', vis_confidence = 61\<rparr>"

definition shop_env :: "nat \<Rightarrow> env" where
  "shop_env k =
     \<lparr>new_URL = shop_URL,
      scrape = shop_scrape,
      fetch = shop_fetch,
      screenshot = (\<lambda>tr u. Inr ''shot.png''),
      generatePageObject = shop_page_object k,
      generateTextObject = (\<lambda>tr u t x. Inr shop_text_object),
      generateVisualObject = (\<lambda>tr s. Inr shop_visual_object),
      db_create = (\<lambda>tr u s. Inr ()),
      db_update = (\<lambda>tr n. Inr ()),
      db_list = (\<lambda>tr. Inr ())\<rparr>"

text \<open>
  A second site: one page whose address is both product-like and category-like, no links,
  no sitemap, and a model that counts three products when first asked and five afterwards.
\<close>

definition twice_env :: env where
  "twice_env =
     \<lparr>new_URL = shop_URL,
      scrape = (\<lambda>tr u. Inr \<lparr>markdown = Some (replicate 100 (CHR ''c'')),
                             metadata_title = None, links = None\<rparr>),
      fetch = (\<lambda>tr u. Inl (Error ''network error'')),
      screenshot = (\<lambda>tr u. Inr ''shot.png''),
      generatePageObject =
        (\<lambda>tr u t x. Inr \<lparr>obj_productCount = Some (if model_calls tr = [] then 3 else 5),
                           obj_pageType = Some ''category'', obj_categories = None,
                           obj_confidence = Some 90, obj_evidence = None\<rparr>),
      generateTextObject = (\<lambda>tr u t x. Inr shop_text_object),
      generateVisualObject = (\<lambda>tr s. Inr shop_visual_object),
      db_create = (\<lambda>tr u s. Inr ()),
      db_update = (\<lambda>tr n. Inr ()),
      db_list = (\<lambda>tr. Inr ())\<rparr>"

text \<open>What the crawl of the shop discovers and finds, to compare the runs with.\<close>

definition shop_pages :: "string list" where
  "shop_pages =
     [''https://example.test/products/1'', ''https://example.test/items/9'',
      ''https://example.test'', ''https://example.test/about-us'', ''https://example.test/down'']"

definition shop_results :: "nat \<Rightarrow> PageAnalysis list" where
  "shop_results k =
     [\<lparr>url = ''https://example.test/products/1'', productCount = 6,
       categories = [''toys'', ''games''], confidence = k, evidence = [],
       pageType = ''category'', title = ''Unknown'', status = Completed, errorMessage = None\<rparr>,
      \<lparr>url = ''https://example.test/items/9'', productCount = 0, categories = [],
       confidence = 0, evidence = [''Analysis failed: model overloaded''],
       pageType = ''unknown'', title = ''Unknown'', status = Failed,
       errorMessage = Some ''model overloaded''\<rparr>,
      \<lparr>url = ''https://example.test'', productCount = 4, categories = [''toys''],
       confidence = 80, evidence = [''four product cards''], pageType = ''homepage'',
       title = ''Shop'', status = Completed, errorMessage = None\<rparr>,
      \<lparr>url = ''https://example.test/about-us'', productCount = 0, categories = [],
       confidence = 0, evidence = [''No content could be scraped from this page''],
       pageType = ''unknown'', title = ''About'', status = Failed,
       errorMessage = Some ''Could not scrape page content''\<rparr>,
      \<lparr>url = ''https://example.test/down'', productCount = 0, categories = [],
       confidence = 0, evidence = [''Analysis failed: 503 Service Unavailable''],
       pageType = ''unknown'', title = ''Unknown'', status = Failed,
       errorMessage = Some ''503 Service Unavailable''\<rparr>]"

definition twice_page :: "nat \<Rightarrow> PageAnalysis" where
  "twice_page c =
     \<lparr>url = ''https://example.test/shop/products'', productCount = c, categories = [],
      confidence = 90, evidence = [], pageType = ''category'', title = ''Unknown'',
      status = Completed, errorMessage = None\<rparr>"

section \<open>The validator\<close>

lemma startsWith_iff: "startsWith s p \<longleftrightarrow> (\<exists>rest. s = p @ rest)"
proof
  assume "startsWith s p"
  then have "s = p @ drop (length p) s"
    by (metis append_take_drop_id startsWith_def)
  then show "\<exists>rest. s = p @ rest" ..
next
  assume "\<exists>rest. s = p @ rest"
  then show "startsWith s p" by (auto simp: startsWith_def)
qed

lemma with_scheme_startsWith:
  "with_scheme u = (if startsWith u ''http://'' \<or> startsWith u ''https://'' then u else ''https://'' @ u)"
  by (simp add: with_scheme_def startsWith_def eval_nat_numeral)

text \<open>
  Claim C4. For every input string, \<^verbatim>\<open>validateUrl\<close> puts \<^verbatim>\<open>https://\<close> in front when the
  string starts with neither \<^verbatim>\<open>http://\<close> nor \<^verbatim>\<open>https://\<close>; it fails exactly when the
  browser's parser rejects the resulting string, and when it succeeds it returns that
  string, unchanged otherwise.
\<close>

theorem validateUrl_prepends_and_validates:
  "(validateUrl E u = Inr s \<longleftrightarrow> s = with_scheme u \<and> new_URL E (with_scheme u) None \<noteq> None) \<and>
   ((\<exists>e. validateUrl E u = Inl e) \<longleftrightarrow> new_URL E (with_scheme u) None = None) \<and>
   with_scheme u =
     (if (\<exists>rest. u = ''http://'' @ rest) \<or> (\<exists>rest. u = ''https://'' @ rest) then u
      else ''https://'' @ u)"
proof -
  have a: "validateUrl E u =
      (case new_URL E (with_scheme u) None of
         None \<Rightarrow> Inl (Error ''Please enter a valid website URL'')
       | Some parsed \<Rightarrow> Inr (with_scheme u))"
  proof (cases "startsWith u ''http://'' \<or> startsWith u ''https://''")
    case True
    then have "with_scheme u = u" by (simp add: with_scheme_startsWith)
    with True show ?thesis by (auto simp: validateUrl_def split: option.splits)
  next
    case False
    then have "with_scheme u = ''https://'' @ u" by (simp add: with_scheme_startsWith)
    with False show ?thesis by (simp add: validateUrl_def split: option.splits)
  qed
  have b: "with_scheme u =
     (if (\<exists>rest. u = ''http://'' @ rest) \<or> (\<exists>rest. u = ''https://'' @ rest) then u
      else ''https://'' @ u)"
    unfolding with_scheme_startsWith startsWith_iff ..
  show ?thesis
    using b by (auto simp: a split: option.splits)
qed

text \<open>The fields of the concrete shop.\<close>

lemma shop_sel:
  "new_URL (shop_env k) = shop_URL" "scrape (shop_env k) = shop_scrape"
  "fetch (shop_env k) = shop_fetch" "generatePageObject (shop_env k) = shop_page_object k"
  "screenshot (shop_env k) = (\<lambda>tr u. Inr ''shot.png'')"
  "generateTextObject (shop_env k) = (\<lambda>tr u t x. Inr shop_text_object)"
  "generateVisualObject (shop_env k) = (\<lambda>tr s. Inr shop_visual_object)"
  "db_create (shop_env k) = (\<lambda>tr u s. Inr ())" "db_update (shop_env k) = (\<lambda>tr n. Inr ())"
  by (simp_all add: shop_env_def)

theorem validateUrl_prepends_and_validates_witness:
  "validateUrl (shop_env 60) ''example.test'' = Inr ''https://example.test'' \<and>
   validateUrl (shop_env 60) ''https://example.test'' = Inr ''https://example.test'' \<and>
   (\<exists>e. validateUrl (shop_env 60) ''not a url'' = Inl e) \<and>
   new_URL (shop_env 60) ''https://not a url'' None = None"
proof -
  have 1: "with_scheme ''example.test'' = ''https://example.test''"
    and 2: "with_scheme ''https://example.test'' = ''https://example.test''"
    and 3: "with_scheme ''not a url'' = ''https://not a url''"
    by (simp_all add: with_scheme_def)
  have 4: "new_URL (shop_env 60) ''https://example.test'' None \<noteq> None"
    and 5: "new_URL (shop_env 60) ''https://not a url'' None = None"
    by (simp_all add: shop_sel shop_URL_def startsWith_def Let_def)
  have w1: "validateUrl (shop_env 60) ''example.test'' = Inr ''https://example.test''"
    using validateUrl_prepends_and_validates
      [of "shop_env 60" "''example.test''" "''https://example.test''"] 4
    by (simp only: 1 simp_thms)
  have w2: "validateUrl (shop_env 60) ''https://example.test'' = Inr ''https://example.test''"
    using validateUrl_prepends_and_validates
      [of "shop_env 60" "''https://example.test''" "''https://example.test''"] 4
    by (simp only: 2 simp_thms)
  have w3: "\<exists>e. validateUrl (shop_env 60) ''not a url'' = Inl e"
    using validateUrl_prepends_and_validates [of "shop_env 60" "''not a url''"] 5
    by (simp only: 3 simp_thms)
  show ?thesis
    using w1 w2 w3 5 by blast
qed

section \<open>Evaluating the concrete shop\<close>

lemma shop_trim: "trim '' example.test '' = ''example.test''"
  by (simp add: trim_def is_space_def)

lemma shop_validate: "validateUrl (shop_env k) ''example.test'' = Inr ''https://example.test''"
  by (simp add: validateUrl_def shop_sel shop_URL_def startsWith_def Let_def)

lemma shop_single_run:
  "fst (analyzeWebsite_single (shop_env k) tr '' example.test '') =
     Inr (combinedResult ''https://example.test'' ''Shop'' shop_text_object shop_visual_object)"
  by (simp add: analyzeWebsite_single_def single_try_def shop_trim shop_validate shop_sel
      shop_scrape_def content_missing_def or_default_def loadHistory_def Let_def)

section \<open>The single-page combined flow\<close>

lemma Math_round_half_nat:
  "nat (Math_round (real n / 2)) = (n + 1) div 2"
proof -
  have "real n / 2 + 1 / 2 = real (n + 1) / real 2" by (simp add: field_simps)
  then have "\<lfloor>real n / 2 + 1 / 2\<rfloor> = int ((n + 1) div 2)"
    by (simp only: floor_divide_of_nat_eq)
  then show ?thesis by (simp add: Math_round_def)
qed

lemma Math_round_mean_nat:
  "nat (Math_round ((real a + real b) / 2)) = (a + b + 1) div 2"
  using Math_round_half_nat [of "a + b"] by simp

lemma analyzeWebsite_single_result:
  assumes "fst (analyzeWebsite_single E tr input) = Inr r"
  shows "\<exists>u t x s a v tra trv.
           generateTextObject E tra u t x = Inr a \<and> generateVisualObject E trv s = Inr v \<and>
           r = combinedResult u t a v"
  using assms
  by (auto simp: analyzeWebsite_single_def single_try_def Let_def
           split: if_splits sum.splits prod.splits) blast

text \<open>
  Claim C3. In the single-page combined flow the final product count starts from the
  text-analysis total; a pagination-derived estimate that exceeds that total replaces it;
  a visual product count above the text analysis's same-page count adds the difference.
  For a text-derived total of 5, a pagination estimate of 20 and a visual count that
  exceeds the text on-page count by 2, the final count is 22.
\<close>

theorem combined_count_reconciled:
  "totalProductCount (combinedResult u t a v) =
     reconciled_count (or_zero (txt_totalProducts a)) (txt_estimatedTotalFromPagination a)
       (txt_productsOnThisPage a) (visualProductCount v) \<and>
   (txt_totalProducts a = Some 5 \<and> txt_estimatedTotalFromPagination a = Some 20 \<and>
    visualProductCount v = txt_productsOnThisPage a + 2
    \<longrightarrow> totalProductCount (combinedResult u t a v) = 22) \<and>
   (fst (analyzeWebsite_single E tr input) = Inr r \<longrightarrow>
      (\<exists>u t x s a v tra trv.
          generateTextObject E tra u t x = Inr a \<and> generateVisualObject E trv s = Inr v \<and>
          totalProductCount r =
            reconciled_count (or_zero (txt_totalProducts a)) (txt_estimatedTotalFromPagination a)
              (txt_productsOnThisPage a) (visualProductCount v)))"
proof -
  have 1: "totalProductCount (combinedResult u t a v) =
     reconciled_count (or_zero (txt_totalProducts a)) (txt_estimatedTotalFromPagination a)
       (txt_productsOnThisPage a) (visualProductCount v)" for u t a v
    by (auto simp: combinedResult_def finalProductCount_def reconciled_count_def Let_def
             split: option.splits)
  have 2: "totalProductCount (combinedResult u t a v) = 22"
    if "txt_totalProducts a = Some 5" "txt_estimatedTotalFromPagination a = Some 20"
       "visualProductCount v = txt_productsOnThisPage a + 2"
    using that by (simp add: 1 reconciled_count_def or_zero_def)
  have 3: "\<exists>u t x s a v tra trv.
          generateTextObject E tra u t x = Inr a \<and> generateVisualObject E trv s = Inr v \<and>
          totalProductCount r =
            reconciled_count (or_zero (txt_totalProducts a)) (txt_estimatedTotalFromPagination a)
              (txt_productsOnThisPage a) (visualProductCount v)"
    if "fst (analyzeWebsite_single E tr input) = Inr r"
    using analyzeWebsite_single_result [OF that] 1 by metis
  show ?thesis using 1 2 3 by blast
qed

theorem combined_count_reconciled_witness:
  "txt_totalProducts shop_text_object = Some 5 \<and>
   txt_estimatedTotalFromPagination shop_text_object = Some 20 \<and>
   visualProductCount shop_visual_object = txt_productsOnThisPage shop_text_object + 2 \<and>
   fst (analyzeWebsite_single (shop_env 60) [] '' example.test '') =
     Inr (combinedResult ''https://example.test'' ''Shop'' shop_text_object shop_visual_object) \<and>
   totalProductCount
     (combinedResult ''https://example.test'' ''Shop'' shop_text_object shop_visual_object) = 22"
proof -
  have h: "txt_totalProducts shop_text_object = Some 5 \<and>
      txt_estimatedTotalFromPagination shop_text_object = Some 20 \<and>
      visualProductCount shop_visual_object = txt_productsOnThisPage shop_text_object + 2"
    by (simp add: shop_text_object_def shop_visual_object_def)
  show ?thesis
    using h shop_single_run [of 60 "[]"]
      combined_count_reconciled [of "''https://example.test''" "''Shop''" shop_text_object
        shop_visual_object "shop_env 60" "[]" "'' example.test ''"]
    by blast
qed

text \<open>
  Claim C7, as the component computes it. In the single-page combined flow the reported
  confidence is the arithmetic mean of the text-analysis and the visual-analysis
  confidence scores rounded to the nearest integer, a half rounding up: it is within one
  half of the mean, and equals the mean exactly when the two scores have an even sum.
\<close>

theorem combined_confidence_rounded_mean:
  "details_confidence (details (combinedResult u t a v)) =
     nat (Math_round ((real (txt_confidence a) + real (vis_confidence v)) / 2)) \<and>
   confidence (hd (pageResults (combinedResult u t a v))) =
     details_confidence (details (combinedResult u t a v)) \<and>
   \<bar>real (details_confidence (details (combinedResult u t a v)))
      - (real (txt_confidence a) + real (vis_confidence v)) / 2\<bar> \<le> 1 / 2 \<and>
   (real (details_confidence (details (combinedResult u t a v)))
      = (real (txt_confidence a) + real (vis_confidence v)) / 2
    \<longleftrightarrow> even (txt_confidence a + vis_confidence v))"
proof -
  define n where "n = txt_confidence a + vis_confidence v"
  have c: "details_confidence (details (combinedResult u t a v)) = (n + 1) div 2"
    by (simp add: combinedResult_def combinedAvgConfidence_def Let_def n_def Math_round_mean_nat)
  have m: "(real (txt_confidence a) + real (vis_confidence v)) / 2 = real n / 2"
    by (simp add: n_def)
  have r: "nat (Math_round (real n / 2)) = (n + 1) div 2"
    by (rule Math_round_half_nat)
  have p: "confidence (hd (pageResults (combinedResult u t a v))) = (n + 1) div 2"
    by (simp add: combinedResult_def combinedAvgConfidence_def Let_def n_def Math_round_mean_nat)
  have d: "\<bar>real ((n + 1) div 2) - real n / 2\<bar> \<le> 1 / 2"
  proof (cases "even n")
    case True
    then obtain k where "n = 2 * k" by (auto elim: evenE)
    then show ?thesis by simp
  next
    case False
    then obtain k where k: "n = 2 * k + 1" by (auto elim: oddE)
    then have "(n + 1) div 2 = k + 1" by simp
    with k show ?thesis by (simp add: field_simps)
  qed
  have e: "real ((n + 1) div 2) = real n / 2 \<longleftrightarrow> even n"
  proof (cases "even n")
    case True
    then obtain k where "n = 2 * k" by (auto elim: evenE)
    then show ?thesis by simp
  next
    case False
    then obtain k where k: "n = 2 * k + 1" by (auto elim: oddE)
    then have "(n + 1) div 2 = k + 1" by simp
    with k show ?thesis by (simp add: field_simps)
  qed
  show ?thesis
    unfolding c p m r using d e by (simp add: n_def)
qed

theorem combined_confidence_not_mean:
  "fst (analyzeWebsite_single (shop_env 60) [] '' example.test '') =
     Inr (combinedResult ''https://example.test'' ''Shop'' shop_text_object shop_visual_object) \<and>
   txt_confidence shop_text_object = 80 \<and> vis_confidence shop_visual_object = 61 \<and>
   details_confidence (details
     (combinedResult ''https://example.test'' ''Shop'' shop_text_object shop_visual_object)) = 71 \<and>
   real (details_confidence (details
     (combinedResult ''https://example.test'' ''Shop'' shop_text_object shop_visual_object)))
     \<noteq> (real (txt_confidence shop_text_object) + real (vis_confidence shop_visual_object)) / 2"
proof -
  have "details_confidence (details
     (combinedResult ''https://example.test'' ''Shop'' shop_text_object shop_visual_object)) = 71"
    by (simp add: combinedResult_def combinedAvgConfidence_def Let_def shop_text_object_def
        shop_visual_object_def Math_round_def)
  then show ?thesis
    using shop_single_run [of 60 "[]"]
    by (simp add: shop_text_object_def shop_visual_object_def)
qed

section \<open>The analysis of one page\<close>

lemma analyzePageForProducts_url:
  "url (fst (analyzePageForProducts E tr u i n)) = u"
  by (simp add: analyzePageForProducts_def page_failed_def Let_def split: sum.splits)

lemma analyzePageForProducts_calls:
  "\<exists>g. snd (analyzePageForProducts E tr u i n) = tr @ Scrape u # g \<and> scraped_urls g = []"
  by (simp add: analyzePageForProducts_def scraped_urls_def Let_def split: sum.splits)

text \<open>
  Claim C5. For every page URL whose scraped content is missing or shorter than 100
  characters, \<^verbatim>\<open>analyzePageForProducts\<close> returns a page result with status failed, product
  count 0 and a non-empty error message, and the only request it makes is the scrape: the
  generative model is not invoked.
\<close>

theorem short_content_page_failed:
  assumes "scrape E tr pageUrl = Inr scraped"
    and "markdown scraped = None \<or> (\<exists>text. markdown scraped = Some text \<and> length text < 100)"
  shows "status (fst (analyzePageForProducts E tr pageUrl i n)) = Failed \<and>
         productCount (fst (analyzePageForProducts E tr pageUrl i n)) = 0 \<and>
         url (fst (analyzePageForProducts E tr pageUrl i n)) = pageUrl \<and>
         (\<exists>m. errorMessage (fst (analyzePageForProducts E tr pageUrl i n)) = Some m \<and> m \<noteq> []) \<and>
         snd (analyzePageForProducts E tr pageUrl i n) = tr @ [Scrape pageUrl] \<and>
         model_calls (snd (analyzePageForProducts E tr pageUrl i n)) = model_calls tr"
proof -
  from assms(2) have "content_missing (markdown scraped)"
    by (auto simp: content_missing_def)
  with assms(1) have
    "analyzePageForProducts E tr pageUrl i n =
       (\<lparr>url = pageUrl, productCount = 0, categories = [], confidence = 0,
         evidence = [''No content could be scraped from this page''],
         pageType = ''unknown'',
         title = or_default (metadata_title scraped) ''Unknown'',
         status = Failed,
         errorMessage = Some ''Could not scrape page content''\<rparr>,
        tr @ [Scrape pageUrl])"
    by (simp add: analyzePageForProducts_def)
  then show ?thesis
    by (simp add: model_calls_def)
qed

theorem short_content_page_failed_witness:
  "scrape (shop_env 60) [] ''https://example.test/about-us'' =
     Inr \<lparr>markdown = Some ''About us'', metadata_title = Some ''About'', links = None\<rparr> \<and>
   length ''About us'' < 100 \<and>
   status (fst (analyzePageForProducts (shop_env 60) [] ''https://example.test/about-us'' 3 5)) = Failed \<and>
   productCount (fst (analyzePageForProducts (shop_env 60) [] ''https://example.test/about-us'' 3 5)) = 0 \<and>
   (\<exists>m. errorMessage (fst (analyzePageForProducts (shop_env 60) [] ''https://example.test/about-us'' 3 5))
          = Some m \<and> m \<noteq> []) \<and>
   snd (analyzePageForProducts (shop_env 60) [] ''https://example.test/about-us'' 3 5) =
     [Scrape ''https://example.test/about-us'']"
proof -
  have s: "scrape (shop_env 60) [] ''https://example.test/about-us'' =
     Inr \<lparr>markdown = Some ''About us'', metadata_title = Some ''About'', links = None\<rparr>"
    by (simp add: shop_sel shop_scrape_def)
  have m: "markdown \<lparr>markdown = Some ''About us'', metadata_title = Some ''About'', links = None\<rparr> = None \<or>
      (\<exists>text. markdown \<lparr>markdown = Some ''About us'', metadata_title = Some ''About'', links = None\<rparr>
          = Some text \<and> length text < 100)"
    by simp
  show ?thesis
    using s short_content_page_failed [OF s m, of 3 5] by simp
qed

section \<open>The export\<close>

text \<open>
  Claim C6, as the component behaves. \<^verbatim>\<open>exportResults\<close> performs no download action
  exactly when the result is null. For every result that is not null it triggers one
  download of a file named after the current date, holding the header line followed by
  one line per page result; for a result whose page-result list is empty the file holds
  the header line alone.
\<close>

theorem export_downloads_unless_null:
  "(exportResults isoNow res = None \<longleftrightarrow> res = None) \<and>
   exportResults isoNow (Some r) =
     Some \<lparr>download_name = ''product-analysis-'' @ takeWhile (\<lambda>c. c \<noteq> CHR ''T'') isoNow @ ''.csv'',
           download_content = join [CHR 0x0A] (map csv_line (csv_header # map csv_row (pageResults r)))\<rparr> \<and>
   exportResults isoNow (Some (r\<lparr>pageResults := []\<rparr>)) =
     Some \<lparr>download_name = ''product-analysis-'' @ takeWhile (\<lambda>c. c \<noteq> CHR ''T'') isoNow @ ''.csv'',
           download_content = csv_line csv_header\<rparr>"
proof -
  have l: "(\<lambda>row. join '','' (map quote_cell row)) = csv_line"
    by (rule ext) (simp add: csv_line_def)
  show ?thesis
    by (cases res) (simp_all add: exportResults_def Let_def l)
qed

theorem export_empty_result_downloads:
  "pageResults (finalResult [] [] 0) = [] \<and>
   exportResults ''2025-01-02T10:00:00.000Z'' (Some (finalResult [] [] 0)) \<noteq> None \<and>
   exportResults ''2025-01-02T10:00:00.000Z'' (Some (finalResult [] [] 0)) =
     Some \<lparr>download_name = ''product-analysis-2025-01-02.csv'',
           download_content = csv_line csv_header\<rparr>"
  by (simp add: exportResults_def finalResult_def Let_def csv_line_def)

section \<open>Page discovery\<close>

lemma set_add_Cons: "\<exists>rest. set_add (b # xs) x = b # rest"
  by (simp add: set_add_def)

lemma add_link_Cons: "\<exists>rest. add_link E baseUrl d (b # xs) l = b # rest"
  using set_add_Cons [of b xs] by (auto simp: add_link_def split: option.splits)

lemma foldl_add_link_Cons: "\<exists>rest. foldl (add_link E baseUrl d) (b # xs) ls = b # rest"
proof (induction ls arbitrary: xs)
  case Nil
  show ?case by simp
next
  case (Cons l ls)
  obtain ys where "add_link E baseUrl d (b # xs) l = b # ys"
    using add_link_Cons by blast
  with Cons.IH [of ys] show ?case by simp
qed

lemma add_sitemap_url_Cons: "\<exists>rest. add_sitemap_url E d (b # xs) m = b # rest"
  using set_add_Cons [of b xs] by (auto simp: add_sitemap_url_def Let_def split: option.splits)

lemma foldl_add_sitemap_url_Cons: "\<exists>rest. foldl (add_sitemap_url E d) (b # xs) ms = b # rest"
proof (induction ms arbitrary: xs)
  case Nil
  show ?case by simp
next
  case (Cons m ms)
  obtain ys where "add_sitemap_url E d (b # xs) m = b # ys"
    using add_sitemap_url_Cons by blast
  with Cons.IH [of ys] show ?case by simp
qed

lemma try_sitemaps_Cons: "\<exists>rest. fst (try_sitemaps E d us (b # xs, tr)) = b # rest"
proof (induction us arbitrary: tr)
  case Nil
  show ?case by simp
next
  case (Cons u us)
  show ?case
    using Cons.IH foldl_add_sitemap_url_Cons [of E d b xs]
    by (auto split: sum.splits)
qed

lemma prioritize_length: "length (prioritize pages) \<le> 30"
  by (simp add: prioritize_def Let_def)

lemma prioritize_head: "b \<in> set (prioritize (b # rest))"
proof -
  let ?P = "filter is_product_page (b # rest)"
  let ?C = "filter is_category_page (b # rest)"
  let ?O = "filter (\<lambda>u. u \<notin> set ?P \<and> u \<notin> set ?C) (b # rest)"
  have len: "length (take 15 ?P @ take 10 ?C @ take 5 ?O) \<le> 30" by simp
  have mem: "b \<in> set (take 15 ?P @ take 10 ?C @ take 5 ?O)"
  proof (cases "is_product_page b")
    case True
    then show ?thesis by simp
  next
    case np: False
    show ?thesis
    proof (cases "is_category_page b")
      case True
      then show ?thesis by simp
    next
      case False
      with np have "?O = b # filter (\<lambda>u. u \<notin> set ?P \<and> u \<notin> set ?C) rest" by simp
      then have "b \<in> set (take 5 ?O)" by simp
      then show ?thesis by simp
    qed
  qed
  have "prioritize (b # rest) = take 30 (take 15 ?P @ take 10 ?C @ take 5 ?O)"
    by (simp add: prioritize_def Let_def)
  also have "\<dots> = take 15 ?P @ take 10 ?C @ take 5 ?O"
    using len by (rule take_all)
  finally show ?thesis using mem by simp
qed

text \<open>
  Claim C2. For every base URL and every outcome of link scraping and sitemap fetching,
  \<^verbatim>\<open>findAllPages\<close> returns a list of at most 30 URLs that contains the base URL; when
  discovery fails, that is when the base URL does not parse or the scrape of the homepage
  fails, it returns exactly the one-element list with the base URL.
\<close>

theorem findAllPages_bounded_with_base:
  "length (fst (findAllPages E tr baseUrl)) \<le> 30 \<and>
   baseUrl \<in> set (fst (findAllPages E tr baseUrl)) \<and>
   (new_URL E baseUrl None = None \<or> (\<exists>e. scrape E tr baseUrl = Inl e)
      \<longrightarrow> fst (findAllPages E tr baseUrl) = [baseUrl])"
proof (cases "new_URL E baseUrl None")
  case None
  then show ?thesis by (simp add: findAllPages_def)
next
  case (Some parsed)
  show ?thesis
  proof (cases "scrape E tr baseUrl")
    case (Inl e)
    with Some show ?thesis by (simp add: findAllPages_def)
  next
    case (Inr scraped)
    define allPages where "allPages =
      (case links scraped of None \<Rightarrow> [baseUrl]
       | Some ls \<Rightarrow> foldl (add_link E baseUrl (hostname parsed)) [baseUrl] ls)"
    have "\<exists>xs. allPages = baseUrl # xs"
    proof (cases "links scraped")
      case None
      then show ?thesis by (simp add: allPages_def)
    next
      case (Some ls)
      then show ?thesis
        using foldl_add_link_Cons [of E baseUrl "hostname parsed" baseUrl "[]" ls]
        by (simp add: allPages_def)
    qed
    then obtain xs where xs: "allPages = baseUrl # xs" ..
    define us where "us = [baseUrl @ ''/sitemap.xml'', baseUrl @ ''/sitemap_index.xml'',
                           baseUrl @ ''/product-sitemap.xml'']"
    obtain ys where ys: "fst (try_sitemaps E (hostname parsed) us (allPages, tr @ [Scrape baseUrl]))
        = baseUrl # ys"
      using try_sitemaps_Cons [of E "hostname parsed" us baseUrl xs] xs by blast
    have "fst (findAllPages E tr baseUrl) = prioritize (baseUrl # ys)"
      using Some Inr ys
      by (simp add: findAllPages_def Let_def case_prod_beta allPages_def us_def)
    then show ?thesis
      using prioritize_length prioritize_head Some Inr by simp
  qed
qed

theorem findAllPages_bounded_with_base_witness:
  "(\<exists>e. scrape (shop_env 60) [] ''https://example.test/down'' = Inl e) \<and>
   fst (findAllPages (shop_env 60) [] ''https://example.test/down'') = [''https://example.test/down''] \<and>
   length (fst (findAllPages (shop_env 60) [] ''https://example.test/down'')) \<le> 30 \<and>
   ''https://example.test/down'' \<in> set (fst (findAllPages (shop_env 60) [] ''https://example.test/down''))"
proof -
  have s: "\<exists>e. scrape (shop_env 60) [] ''https://example.test/down'' = Inl e"
    by (simp add: shop_sel shop_scrape_def)
  show ?thesis
    using s findAllPages_bounded_with_base [of "shop_env 60" "[]" "''https://example.test/down''"]
    by blast
qed

section \<open>The loop over the discovered pages\<close>

lemma analyze_pages_urls:
  "map url (fst (analyze_pages E n pages i (rs, t, cs, tr))) = map url rs @ pages"
  by (induction pages arbitrary: i rs t cs tr)
     (simp_all add: Let_def case_prod_beta analyzePageForProducts_url)

lemma analyze_pages_total:
  "t = sum_list (map productCount (completed_pages rs)) \<Longrightarrow>
   fst (snd (analyze_pages E n pages i (rs, t, cs, tr))) =
     sum_list (map productCount (completed_pages (fst (analyze_pages E n pages i (rs, t, cs, tr)))))"
proof (induction pages arbitrary: i rs t cs tr)
  case Nil
  then show ?case by simp
next
  case (Cons u pages)
  define p where "p = fst (analyzePageForProducts E tr u i n)"
  define tr' where "tr' = snd (analyzePageForProducts E tr u i n)"
  show ?case
  proof (cases "status p = Completed")
    case True
    have "t + productCount p = sum_list (map productCount (completed_pages (rs @ [p])))"
      using Cons.prems True by (simp add: completed_pages_def)
    from Cons.IH [OF this] True show ?thesis
      by (simp add: Let_def case_prod_beta p_def tr'_def)
  next
    case False
    have "t = sum_list (map productCount (completed_pages (rs @ [p])))"
      using Cons.prems False by (simp add: completed_pages_def)
    from Cons.IH [OF this] False show ?thesis
      by (simp add: Let_def case_prod_beta p_def tr'_def)
  qed
qed

lemma analyze_pages_scraped:
  "scraped_urls (snd (snd (snd (analyze_pages E n pages i (rs, t, cs, tr))))) =
     scraped_urls tr @ pages"
proof (induction pages arbitrary: i rs t cs tr)
  case Nil
  show ?case by simp
next
  case (Cons u pages)
  obtain g where g: "snd (analyzePageForProducts E tr u i n) = tr @ Scrape u # g"
      "scraped_urls g = []"
    using analyzePageForProducts_calls by blast
  have "scraped_urls (tr @ Scrape u # g) = scraped_urls tr @ [u]"
    using g(2) by (simp add: scraped_urls_def)
  then show ?case
    using Cons.IH g(1) by (simp add: Let_def case_prod_beta)
qed

section \<open>The result of the multi-page flow\<close>

lemma analyzeWebsite_result:
  assumes "fst (analyzeWebsite E tr input) = Inr r"
  shows "\<exists>v. validateUrl E (trim input) = Inr v \<and>
           (let d = findAllPages E (tr @ [DbCreate v ''analyzing'']) v;
                l = analyze_pages E (length (fst d)) (fst d) 0 ([], 0, [], snd d)
            in r = finalResult (fst d) (fst l) (fst (snd l)))"
  using assms
  by (auto simp: analyzeWebsite_def Let_def case_prod_beta split: if_splits sum.splits)

lemma foldl_add_confidence:
  "foldl (\<lambda>acc p. acc + confidence p) a ps = a + sum_list (map confidence ps)"
  by (induction ps arbitrary: a) simp_all

lemma pagesAvgConfidence_mean:
  "pagesAvgConfidence rs = nat (Math_round (mean_confidence (completed_pages rs)))"
proof (cases "completed_pages rs = []")
  case True
  then show ?thesis
    by (simp add: pagesAvgConfidence_def mean_confidence_def completed_pages_def Math_round_def)
next
  case False
  then have "length (completed_pages rs) > 0" by simp
  with False show ?thesis
    by (simp add: pagesAvgConfidence_def mean_confidence_def completed_pages_def
        foldl_add_confidence Let_def)
qed

lemma mean_confidence_nonneg: "0 \<le> mean_confidence ps"
  by (simp add: mean_confidence_def)

lemma Math_round_close:
  assumes "0 \<le> x"
  shows "\<bar>real (nat (Math_round x)) - x\<bar> \<le> 1 / 2"
proof -
  have "0 \<le> Math_round x"
    using assms by (simp add: Math_round_def)
  then have eq: "real (nat (Math_round x)) = of_int \<lfloor>x + 1 / 2\<rfloor>"
    by (simp add: Math_round_def)
  have "of_int \<lfloor>x + 1 / 2\<rfloor> \<le> x + 1 / 2" by (rule of_int_floor_le)
  moreover have "x + 1 / 2 < of_int \<lfloor>x + 1 / 2\<rfloor> + 1"
    by (rule floor_correct [THEN conjunct2, simplified] ) 
  ultimately show ?thesis unfolding eq by linarith
qed


section \<open>The crawl of the concrete shop\<close>

lemma shop_links:
  "foldl (add_link (shop_env k) ''https://example.test'' ''example.test'') [''https://example.test'']
     [''https://example.test/products/1'', ''https://example.test/about-us'',
      ''https://example.test/down'', ''https://example.test/items/9'',
      ''https://other.test/products/2'', ''mailto:owner''] =
   [''https://example.test'', ''https://example.test/products/1'',
    ''https://example.test/about-us'', ''https://example.test/down'',
    ''https://example.test/items/9'']"
  by (simp add: add_link_def shop_sel shop_URL_def startsWith_def Let_def set_add_def
      link_path_ok_def toLowerCase_def)

lemma shop_prioritize:
  "prioritize [''https://example.test'', ''https://example.test/products/1'',
     ''https://example.test/about-us'', ''https://example.test/down'',
     ''https://example.test/items/9''] = shop_pages"
  by code_simp

lemma shop_findAllPages:
  "fst (findAllPages (shop_env k) tr ''https://example.test'') = shop_pages"
  unfolding findAllPages_def
  by (simp add: shop_sel shop_scrape_def shop_fetch_def shop_URL_def startsWith_def Let_def
      shop_links [simplified] shop_prioritize)

lemmas shop_page_defs =
  analyzePageForProducts_def shop_sel shop_scrape_def shop_page_object_def content_missing_def
  page_failed_def or_default_def or_zero_def or_empty_def Let_def

lemma shop_page_products:
  "fst (analyzePageForProducts (shop_env k) tr ''https://example.test/products/1'' i n) =
     \<lparr>url = ''https://example.test/products/1'', productCount = 6,
      categories = [''toys'', ''games''], confidence = k, evidence = [],
      pageType = ''category'', title = ''Unknown'', status = Completed, errorMessage = None\<rparr>"
  by (simp add: shop_page_defs)

lemma shop_page_items:
  "fst (analyzePageForProducts (shop_env k) tr ''https://example.test/items/9'' i n) =
     \<lparr>url = ''https://example.test/items/9'', productCount = 0, categories = [],
      confidence = 0, evidence = [''Analysis failed: model overloaded''],
      pageType = ''unknown'', title = ''Unknown'', status = Failed,
      errorMessage = Some ''model overloaded''\<rparr>"
  by (simp add: shop_page_defs)

lemma shop_page_home:
  "fst (analyzePageForProducts (shop_env k) tr ''https://example.test'' i n) =
     \<lparr>url = ''https://example.test'', productCount = 4, categories = [''toys''],
      confidence = 80, evidence = [''four product cards''], pageType = ''homepage'',
      title = ''Shop'', status = Completed, errorMessage = None\<rparr>"
  by (simp add: shop_page_defs)

lemma shop_page_about:
  "fst (analyzePageForProducts (shop_env k) tr ''https://example.test/about-us'' i n) =
     \<lparr>url = ''https://example.test/about-us'', productCount = 0, categories = [],
      confidence = 0, evidence = [''No content could be scraped from this page''],
      pageType = ''unknown'', title = ''About'', status = Failed,
      errorMessage = Some ''Could not scrape page content''\<rparr>"
  by (simp add: shop_page_defs)

lemma shop_page_down:
  "fst (analyzePageForProducts (shop_env k) tr ''https://example.test/down'' i n) =
     \<lparr>url = ''https://example.test/down'', productCount = 0, categories = [],
      confidence = 0, evidence = [''Analysis failed: 503 Service Unavailable''],
      pageType = ''unknown'', title = ''Unknown'', status = Failed,
      errorMessage = Some ''503 Service Unavailable''\<rparr>"
  by (simp add: shop_page_defs)

lemma shop_loop:
  "fst (analyze_pages (shop_env k) n shop_pages i ([], 0, [], tr)) = shop_results k \<and>
   fst (snd (analyze_pages (shop_env k) n shop_pages i ([], 0, [], tr))) = 10"
  by (simp add: shop_pages_def shop_results_def case_prod_beta Let_def shop_page_products
      shop_page_items shop_page_home shop_page_about shop_page_down)

lemma shop_run:
  "fst (analyzeWebsite (shop_env k) tr '' example.test '') =
     Inr (finalResult shop_pages (shop_results k) 10)"
proof -
  have "length shop_pages = 5" by (simp add: shop_pages_def)
  then show ?thesis
    by (simp add: analyzeWebsite_def shop_trim shop_validate shop_sel case_prod_beta Let_def
        shop_findAllPages shop_loop)
qed

lemma shop_down_run:
  "fst (analyzeWebsite (shop_env k) tr ''example.test/down'') =
     Inr (finalResult [''https://example.test/down'']
            [page_failed ''https://example.test/down'' (Error ''503 Service Unavailable'')] 0)"
proof -
  have t: "trim ''example.test/down'' = ''example.test/down''"
    by (simp add: trim_def is_space_def)
  have v: "validateUrl (shop_env k) ''example.test/down'' = Inr ''https://example.test/down''"
    by (simp add: validateUrl_def shop_sel shop_URL_def startsWith_def Let_def)
  have f: "fst (findAllPages (shop_env k) tr' ''https://example.test/down'') =
      [''https://example.test/down'']" for tr'
    by (simp add: findAllPages_def shop_sel shop_scrape_def shop_URL_def startsWith_def Let_def)
  show ?thesis
    by (simp add: analyzeWebsite_def t v f shop_sel case_prod_beta Let_def shop_page_down
        page_failed_def)
qed


section \<open>The aggregate of the multi-page flow\<close>

text \<open>
  Claim C1, as the component computes it. In the multi-page flow the aggregate built by
  \<^verbatim>\<open>analyzeWebsite\<close> satisfies: the total product count is the sum of the product counts
  of the page results with status completed, and the confidence in the details is the
  mean of the confidence of those page results rounded to the nearest integer, a half
  rounding up, hence within one half of the mean, and 0 when no page result is completed.
  For two completed pages with counts 4 and 6 and confidences 80 and 60 the total is 10
  and the average confidence is 70.
\<close>

theorem crawl_total_and_rounded_mean:
  assumes "fst (analyzeWebsite E tr input) = Inr r"
  shows "totalProductCount r = sum_list (map productCount (completed_pages (pageResults r))) \<and>
         details_totalProducts (details r) = totalProductCount r \<and>
         details_confidence (details r) =
           nat (Math_round (mean_confidence (completed_pages (pageResults r)))) \<and>
         \<bar>real (details_confidence (details r))
            - mean_confidence (completed_pages (pageResults r))\<bar> \<le> 1 / 2 \<and>
         (completed_pages (pageResults r) = [] \<longrightarrow> details_confidence (details r) = 0)"
proof -
  from analyzeWebsite_result [OF assms] obtain v where
    r: "let d = findAllPages E (tr @ [DbCreate v ''analyzing'']) v;
            l = analyze_pages E (length (fst d)) (fst d) 0 ([], 0, [], snd d)
        in r = finalResult (fst d) (fst l) (fst (snd l))"
    by blast
  define d where "d = findAllPages E (tr @ [DbCreate v ''analyzing'']) v"
  define l where "l = analyze_pages E (length (fst d)) (fst d) 0 ([], 0, [], snd d)"
  have r': "r = finalResult (fst d) (fst l) (fst (snd l))"
    using r by (simp add: Let_def d_def l_def)
  have results: "pageResults r = fst l"
    by (simp add: r' finalResult_def Let_def)
  have "0 = sum_list (map productCount (completed_pages []))"
    by (simp add: completed_pages_def)
  from analyze_pages_total [OF this]
  have total: "fst (snd l) = sum_list (map productCount (completed_pages (fst l)))"
    unfolding l_def .
  have conf: "details_confidence (details r) =
      nat (Math_round (mean_confidence (completed_pages (fst l))))"
    by (simp add: r' finalResult_def Let_def pagesAvgConfidence_mean)
  have close: "\<bar>real (nat (Math_round (mean_confidence (completed_pages (fst l)))))
      - mean_confidence (completed_pages (fst l))\<bar> \<le> 1 / 2"
    by (rule Math_round_close [OF mean_confidence_nonneg])
  have none: "completed_pages (fst l) = [] \<Longrightarrow>
      nat (Math_round (mean_confidence (completed_pages (fst l)))) = 0"
    by (simp add: mean_confidence_def Math_round_def)
  have t1: "totalProductCount r = fst (snd l)"
    and t2: "details_totalProducts (details r) = fst (snd l)"
    by (simp_all add: r' finalResult_def Let_def)
  show ?thesis
    unfolding results conf t1 t2 using total close none by simp
qed

theorem crawl_total_and_rounded_mean_witness:
  "fst (analyzeWebsite (shop_env 60) [] '' example.test '') =
     Inr (finalResult shop_pages (shop_results 60) 10) \<and>
   map productCount (completed_pages (pageResults (finalResult shop_pages (shop_results 60) 10)))
     = [6, 4] \<and>
   map confidence (completed_pages (pageResults (finalResult shop_pages (shop_results 60) 10)))
     = [60, 80] \<and>
   totalProductCount (finalResult shop_pages (shop_results 60) 10) = 10 \<and>
   details_confidence (details (finalResult shop_pages (shop_results 60) 10)) = 70"
proof -
  have p: "pageResults (finalResult shop_pages (shop_results 60) 10) = shop_results 60"
    by (simp add: finalResult_def Let_def)
  have c: "map productCount (completed_pages (shop_results 60)) = [6, 4]"
      "map confidence (completed_pages (shop_results 60)) = [60, 80]"
    by (simp_all add: completed_pages_def shop_results_def)
  have m: "mean_confidence (completed_pages (shop_results 60)) = 70"
    by (simp add: mean_confidence_def completed_pages_def shop_results_def)
  have "nat (Math_round 70) = 70"
    by (simp add: Math_round_def)
  then show ?thesis
    using crawl_total_and_rounded_mean [OF shop_run [of 60 "[]"]] shop_run [of 60 "[]"]
    by (simp add: p c m)
qed

theorem crawl_confidence_not_mean:
  "fst (analyzeWebsite (shop_env 61) [] '' example.test '') =
     Inr (finalResult shop_pages (shop_results 61) 10) \<and>
   map confidence (completed_pages (pageResults (finalResult shop_pages (shop_results 61) 10)))
     = [61, 80] \<and>
   mean_confidence (completed_pages (pageResults (finalResult shop_pages (shop_results 61) 10)))
     = 141 / 2 \<and>
   details_confidence (details (finalResult shop_pages (shop_results 61) 10)) = 71 \<and>
   real (details_confidence (details (finalResult shop_pages (shop_results 61) 10))) \<noteq>
     mean_confidence (completed_pages (pageResults (finalResult shop_pages (shop_results 61) 10)))"
proof -
  have p: "pageResults (finalResult shop_pages (shop_results 61) 10) = shop_results 61"
    by (simp add: finalResult_def Let_def)
  have c: "map confidence (completed_pages (shop_results 61)) = [61, 80]"
    by (simp add: completed_pages_def shop_results_def)
  have m: "mean_confidence (completed_pages (shop_results 61)) = 141 / 2"
    by (simp add: mean_confidence_def completed_pages_def shop_results_def)
  have d: "details_confidence (details (finalResult shop_pages (shop_results 61) 10)) = 71"
    by (simp add: finalResult_def Let_def pagesAvgConfidence_def shop_results_def Math_round_def)
  show ?thesis
    using shop_run [of 61 "[]"] by (simp add: p c m d)
qed

section \<open>The overall status\<close>

lemma analyzeWebsite_single_status:
  assumes "fst (analyzeWebsite_single E tr input) = Inr r"
  shows "overallStatus r = ResCompleted"
proof -
  from analyzeWebsite_single_result [OF assms]
  obtain u t a v where "r = combinedResult u t a v" by blast
  then show ?thesis by (simp add: combinedResult_def Let_def)
qed

text \<open>
  Claim C9. The overall status of the result of the multi-page flow is completed when at
  least one page result has status completed and failed otherwise; the status partial,
  though the type of the result allows it, is produced by neither flow.
\<close>

theorem overall_status_never_partial:
  "(fst (analyzeWebsite E tr input) = Inr r \<longrightarrow>
      overallStatus r =
        (if \<exists>p \<in> set (pageResults r). status p = Completed then ResCompleted else ResFailed) \<and>
      overallStatus r \<noteq> ResPartial) \<and>
   (fst (analyzeWebsite_single E tr input) = Inr r' \<longrightarrow>
      overallStatus r' = ResCompleted \<and> overallStatus r' \<noteq> ResPartial)"
proof -
  have multi: "overallStatus r =
        (if \<exists>p \<in> set (pageResults r). status p = Completed then ResCompleted else ResFailed)"
    if "fst (analyzeWebsite E tr input) = Inr r"
  proof -
    from analyzeWebsite_result [OF that] obtain pages rs t where r: "r = finalResult pages rs t"
      by (auto simp: Let_def)
    have "(0 < length (filter (\<lambda>p. status p = Completed) rs)) =
        (\<exists>p \<in> set rs. status p = Completed)"
      by (simp add: filter_empty_conv)
    then show ?thesis
      by (simp add: r finalResult_def Let_def)
  qed
  show ?thesis
    using multi analyzeWebsite_single_status by auto
qed

theorem overall_status_never_partial_witness:
  "fst (analyzeWebsite (shop_env 60) [] '' example.test '') =
     Inr (finalResult shop_pages (shop_results 60) 10) \<and>
   (\<exists>p \<in> set (pageResults (finalResult shop_pages (shop_results 60) 10)). status p = Completed) \<and>
   overallStatus (finalResult shop_pages (shop_results 60) 10) = ResCompleted \<and>
   fst (analyzeWebsite (shop_env 60) [] ''example.test/down'') =
     Inr (finalResult [''https://example.test/down'']
            [page_failed ''https://example.test/down'' (Error ''503 Service Unavailable'')] 0) \<and>
   overallStatus (finalResult [''https://example.test/down'']
     [page_failed ''https://example.test/down'' (Error ''503 Service Unavailable'')] 0) = ResFailed \<and>
   fst (analyzeWebsite_single (shop_env 60) [] '' example.test '') =
     Inr (combinedResult ''https://example.test'' ''Shop'' shop_text_object shop_visual_object) \<and>
   overallStatus
     (combinedResult ''https://example.test'' ''Shop'' shop_text_object shop_visual_object)
     = ResCompleted"
proof -
  have p: "\<exists>p \<in> set (pageResults (finalResult shop_pages (shop_results 60) 10)).
      status p = Completed"
    by (simp add: finalResult_def Let_def shop_results_def)
  have q: "\<not> (\<exists>p \<in> set (pageResults (finalResult [''https://example.test/down'']
      [page_failed ''https://example.test/down'' (Error ''503 Service Unavailable'')] 0)).
      status p = Completed)"
    by (simp add: finalResult_def Let_def page_failed_def)
  show ?thesis
    using p q shop_run [of 60 "[]"] shop_single_run [of 60 "[]"] shop_down_run [of 60 "[]"]
      overall_status_never_partial [of "shop_env 60" "[]" "'' example.test ''"
        "finalResult shop_pages (shop_results 60) 10"
        "combinedResult ''https://example.test'' ''Shop'' shop_text_object shop_visual_object"]
      overall_status_never_partial [of "shop_env 60" "[]" "''example.test/down''"
        "finalResult [''https://example.test/down'']
           [page_failed ''https://example.test/down'' (Error ''503 Service Unavailable'')] 0"]
    by simp
qed

section \<open>Failures of single pages\<close>

lemma analyzeWebsite_succeeds:
  assumes "trim input \<noteq> []" and "validateUrl E (trim input) = Inr v"
    and "\<forall>t'. db_create E t' v ''analyzing'' = Inr ()"
    and "\<forall>t' k. db_update E t' k = Inr ()"
  shows "\<exists>r. fst (analyzeWebsite E tr input) = Inr r \<and>
           map url (pageResults r) = fst (findAllPages E (tr @ [DbCreate v ''analyzing'']) v) \<and>
           sitemap r = map url (pageResults r)"
proof -
  define d where "d = findAllPages E (tr @ [DbCreate v ''analyzing'']) v"
  define l where "l = analyze_pages E (length (fst d)) (fst d) 0 ([], 0, [], snd d)"
  have "fst (analyzeWebsite E tr input) = Inr (finalResult (fst d) (fst l) (fst (snd l)))"
    using assms by (simp add: analyzeWebsite_def Let_def case_prod_beta d_def l_def)
  moreover have "map url (fst l) = fst d"
    unfolding l_def using analyze_pages_urls [of E "length (fst d)" "fst d" 0 "[]" 0 "[]" "snd d"]
    by simp
  ultimately show ?thesis
    by (simp add: finalResult_def Let_def d_def)
qed

text \<open>
  Claim C8. In the multi-page flow a content-fetch or model-call failure on one page never
  aborts the run: \<^verbatim>\<open>analyzePageForProducts\<close> returns a failed page result carrying the
  error message instead of propagating the error, and the loop in \<^verbatim>\<open>analyzeWebsite\<close> goes
  on to analyse every remaining discovered page, so that every discovered page is
  requested and has its page result, in order, whenever the run itself is not stopped by
  the validator or the database.
\<close>

theorem page_failure_does_not_abort:
  "(scrape E tr u = Inl e \<longrightarrow>
      status (fst (analyzePageForProducts E tr u i n)) = Failed \<and>
      errorMessage (fst (analyzePageForProducts E tr u i n)) = Some (message e)) \<and>
   (scrape E tr u = Inr s \<and> \<not> content_missing (markdown s) \<and>
    generatePageObject E (tr @ [Scrape u]) u (or_default (metadata_title s) ''Unknown'')
      (take 20000 (the (markdown s))) = Inl e \<longrightarrow>
      status (fst (analyzePageForProducts E tr u i n)) = Failed \<and>
      errorMessage (fst (analyzePageForProducts E tr u i n)) = Some (message e)) \<and>
   map url (fst (analyze_pages E n pages j (rs, t, cs, tr))) = map url rs @ pages \<and>
   scraped_urls (snd (snd (snd (analyze_pages E n pages j (rs, t, cs, tr))))) =
     scraped_urls tr @ pages \<and>
   (trim input \<noteq> [] \<and> validateUrl E (trim input) = Inr v \<and>
    (\<forall>t'. db_create E t' v ''analyzing'' = Inr ()) \<and> (\<forall>t' k. db_update E t' k = Inr ()) \<longrightarrow>
      (\<exists>r. fst (analyzeWebsite E tr input) = Inr r \<and>
           map url (pageResults r) = fst (findAllPages E (tr @ [DbCreate v ''analyzing'']) v) \<and>
           sitemap r = map url (pageResults r)))"
proof -
  have 1: "status (fst (analyzePageForProducts E tr u i n)) = Failed \<and>
      errorMessage (fst (analyzePageForProducts E tr u i n)) = Some (message e)"
    if "scrape E tr u = Inl e"
    using that by (simp add: analyzePageForProducts_def page_failed_def)
  have 2: "status (fst (analyzePageForProducts E tr u i n)) = Failed \<and>
      errorMessage (fst (analyzePageForProducts E tr u i n)) = Some (message e)"
    if "scrape E tr u = Inr s" "\<not> content_missing (markdown s)"
       "generatePageObject E (tr @ [Scrape u]) u (or_default (metadata_title s) ''Unknown'')
          (take 20000 (the (markdown s))) = Inl e"
    using that by (simp add: analyzePageForProducts_def page_failed_def Let_def)
  show ?thesis
    using 1 2 analyze_pages_urls [of E n pages j rs t cs tr]
      analyze_pages_scraped [of E n pages j rs t cs tr]
      analyzeWebsite_succeeds [of input E v tr]
    by blast
qed

theorem page_failure_does_not_abort_witness:
  "scrape (shop_env 60) [] ''https://example.test/down'' = Inl (Error ''503 Service Unavailable'') \<and>
   status (fst (analyzePageForProducts (shop_env 60) [] ''https://example.test/down'' 4 5)) = Failed \<and>
   errorMessage (fst (analyzePageForProducts (shop_env 60) [] ''https://example.test/down'' 4 5))
     = Some ''503 Service Unavailable'' \<and>
   generatePageObject (shop_env 60) [Scrape ''https://example.test/items/9'']
     ''https://example.test/items/9'' ''Unknown'' (replicate 120 (CHR ''b''))
     = Inl (Error ''model overloaded'') \<and>
   status (fst (analyzePageForProducts (shop_env 60) [] ''https://example.test/items/9'' 1 5)) = Failed \<and>
   errorMessage (fst (analyzePageForProducts (shop_env 60) [] ''https://example.test/items/9'' 1 5))
     = Some ''model overloaded'' \<and>
   fst (analyzeWebsite (shop_env 60) [] '' example.test '') =
     Inr (finalResult shop_pages (shop_results 60) 10) \<and>
   map url (pageResults (finalResult shop_pages (shop_results 60) 10)) = shop_pages \<and>
   map status (pageResults (finalResult shop_pages (shop_results 60) 10)) =
     [Completed, Failed, Completed, Failed, Failed]"
proof -
  let ?E = "shop_env 60"
  let ?s = "\<lparr>markdown = Some (replicate 120 (CHR ''b'')), metadata_title = None, links = None\<rparr>"
  have a: "scrape ?E [] ''https://example.test/down'' = Inl (Error ''503 Service Unavailable'')"
    by (simp add: shop_sel shop_scrape_def)
  have b: "scrape ?E [] ''https://example.test/items/9'' = Inr ?s"
    by (simp add: shop_sel shop_scrape_def)
  have c: "\<not> content_missing (markdown ?s)"
    by (simp add: content_missing_def)
  have d: "generatePageObject ?E ([] @ [Scrape ''https://example.test/items/9''])
      ''https://example.test/items/9'' (or_default (metadata_title ?s) ''Unknown'')
      (take 20000 (the (markdown ?s))) = Inl (Error ''model overloaded'')"
    by (simp add: shop_sel shop_page_object_def or_default_def)
  have d': "generatePageObject ?E [Scrape ''https://example.test/items/9'']
     ''https://example.test/items/9'' ''Unknown'' (replicate 120 (CHR ''b''))
     = Inl (Error ''model overloaded'')"
    by (simp add: shop_sel shop_page_object_def)
  have e: "trim '' example.test '' \<noteq> []"
    by (simp add: shop_trim)
  have f: "validateUrl ?E (trim '' example.test '') = Inr ''https://example.test''"
    by (simp add: shop_trim shop_validate)
  have g: "(\<forall>t'. db_create ?E t' ''https://example.test'' ''analyzing'' = Inr ()) \<and>
      (\<forall>t' k. db_update ?E t' k = Inr ())"
    by (simp add: shop_sel)
  have h: "fst (findAllPages ?E ([] @ [DbCreate ''https://example.test'' ''analyzing''])
      ''https://example.test'') = shop_pages"
    by (rule shop_findAllPages)
  have w1: "status (fst (analyzePageForProducts ?E [] ''https://example.test/down'' 4 5)) = Failed \<and>
      errorMessage (fst (analyzePageForProducts ?E [] ''https://example.test/down'' 4 5))
        = Some ''503 Service Unavailable''"
    using a page_failure_does_not_abort
      [where E = ?E and tr = "[]" and u = "''https://example.test/down''"
         and e = "Error ''503 Service Unavailable''" and i = 4 and n = 5]
    by simp
  have w2: "status (fst (analyzePageForProducts ?E [] ''https://example.test/items/9'' 1 5)) = Failed \<and>
      errorMessage (fst (analyzePageForProducts ?E [] ''https://example.test/items/9'' 1 5))
        = Some ''model overloaded''"
    using b c d page_failure_does_not_abort
      [where E = ?E and tr = "[]" and u = "''https://example.test/items/9''" and s = ?s
         and e = "Error ''model overloaded''" and i = 1 and n = 5]
    by simp
  have "\<exists>r. fst (analyzeWebsite ?E [] '' example.test '') = Inr r \<and>
      map url (pageResults r) =
        fst (findAllPages ?E ([] @ [DbCreate ''https://example.test'' ''analyzing''])
               ''https://example.test'') \<and>
      sitemap r = map url (pageResults r)"
    using e f g page_failure_does_not_abort
      [where E = ?E and tr = "[]" and input = "'' example.test ''"
         and v = "''https://example.test''" and u = "''https://example.test/down''"
         and e = "Error ''503 Service Unavailable''" and i = 4 and n = 5 and s = ?s
         and pages = "[]" and j = 0 and rs = "[]" and t = 0 and cs = "[]"]
    by blast
  then have w3: "\<exists>r. fst (analyzeWebsite ?E [] '' example.test '') = Inr r \<and>
      map url (pageResults r) = shop_pages"
    unfolding h by blast
  have st: "map status (pageResults (finalResult shop_pages (shop_results 60) 10)) =
     [Completed, Failed, Completed, Failed, Failed]"
    by (simp add: finalResult_def Let_def shop_results_def)
  show ?thesis
    using a d' w1 w2 w3 st shop_run [of 60 "[]"] by auto
qed

section \<open>The page results and the page breakdown\<close>

lemma snd_breakdown_step:
  "snd (breakdown_step acc p) =
     (if status p = Completed then (snd acc)(url p \<mapsto> productCount p) else snd acc)"
  by (simp add: breakdown_step_def)

lemma dom_page_breakdown:
  "dom (snd (foldl breakdown_step (cb, Map.empty) rs)) = url ` set (completed_pages rs)"
proof (induction rs rule: rev_induct)
  case Nil
  show ?case by (simp add: completed_pages_def)
next
  case (snoc p rs)
  then show ?case
    by (auto simp: snd_breakdown_step completed_pages_def)
qed

lemma page_breakdown_distinct:
  assumes "distinct (map url (completed_pages rs))" and "p \<in> set (completed_pages rs)"
  shows "snd (foldl breakdown_step (cb, Map.empty) rs) (url p) = Some (productCount p)"
  using assms
proof (induction rs rule: rev_induct)
  case Nil
  then show ?case by (simp add: completed_pages_def)
next
  case (snoc q rs)
  show ?case
  proof (cases "status q = Completed")
    case True
    with snoc.prems have d: "distinct (map url (completed_pages rs))"
      and n: "url q \<notin> url ` set (completed_pages rs)"
      by (simp_all add: completed_pages_def)
    from snoc.prems(2) True have "p = q \<or> p \<in> set (completed_pages rs)"
      by (auto simp: completed_pages_def)
    then show ?thesis
    proof
      assume "p = q"
      with True show ?thesis by (simp add: snd_breakdown_step)
    next
      assume p: "p \<in> set (completed_pages rs)"
      with n have "url p \<noteq> url q" by (metis imageI)
      with snoc.IH [OF d p] True show ?thesis
        by (simp add: snd_breakdown_step)
    qed
  next
    case False
    with snoc.prems have "distinct (map url (completed_pages rs))"
      and "p \<in> set (completed_pages rs)"
      by (simp_all add: completed_pages_def)
    with snoc.IH False show ?thesis
      by (simp add: snd_breakdown_step)
  qed
qed

text \<open>
  What holds of every result of the multi-page flow: one page result per entry of the
  discovered list, in order; the number of pages analysed counts the completed page
  results; the keys of the page breakdown are the URLs of the completed page results, and
  each is mapped to the product count of its page result as long as no URL has two
  completed page results.
\<close>

lemma crawl_results_follow_sitemap:
  assumes "fst (analyzeWebsite E tr input) = Inr r"
  shows "map url (pageResults r) = sitemap r"
    and "pagesAnalyzed r = length (completed_pages (pageResults r))"
    and "dom (details_pageBreakdown (details r)) = url ` set (completed_pages (pageResults r))"
    and "distinct (map url (completed_pages (pageResults r))) \<Longrightarrow>
         p \<in> set (completed_pages (pageResults r)) \<Longrightarrow>
         details_pageBreakdown (details r) (url p) = Some (productCount p)"
proof -
  from analyzeWebsite_result [OF assms] obtain v where
    r: "let d = findAllPages E (tr @ [DbCreate v ''analyzing'']) v;
            l = analyze_pages E (length (fst d)) (fst d) 0 ([], 0, [], snd d)
        in r = finalResult (fst d) (fst l) (fst (snd l))"
    by blast
  define d where "d = findAllPages E (tr @ [DbCreate v ''analyzing'']) v"
  define l where "l = analyze_pages E (length (fst d)) (fst d) 0 ([], 0, [], snd d)"
  have r': "r = finalResult (fst d) (fst l) (fst (snd l))"
    using r by (simp add: Let_def d_def l_def)
  have u: "map url (fst l) = fst d"
    unfolding l_def using analyze_pages_urls [of E "length (fst d)" "fst d" 0 "[]" 0 "[]" "snd d"]
    by simp
  have res: "pageResults r = fst l" and sm: "sitemap r = fst d"
    and pb: "details_pageBreakdown (details r) = snd (foldl breakdown_step (Map.empty, Map.empty) (fst l))"
    and pa: "pagesAnalyzed r = length (completed_pages (fst l))"
    by (simp_all add: r' finalResult_def Let_def completed_pages_def)
  show "map url (pageResults r) = sitemap r"
    by (simp add: res sm u)
  show "pagesAnalyzed r = length (completed_pages (pageResults r))"
    by (simp add: res pa)
  show "dom (details_pageBreakdown (details r)) = url ` set (completed_pages (pageResults r))"
    by (simp add: res pb dom_page_breakdown)
  show "details_pageBreakdown (details r) (url p) = Some (productCount p)"
    if "distinct (map url (completed_pages (pageResults r)))"
       "p \<in> set (completed_pages (pageResults r))"
    using that by (simp add: res pb page_breakdown_distinct)
qed

section \<open>A page listed twice\<close>

lemma twice_sel:
  "new_URL twice_env = shop_URL"
  "scrape twice_env = (\<lambda>tr u. Inr \<lparr>markdown = Some (replicate 100 (CHR ''c'')),
                             metadata_title = None, links = None\<rparr>)"
  "fetch twice_env = (\<lambda>tr u. Inl (Error ''network error''))"
  "generatePageObject twice_env =
        (\<lambda>tr u t x. Inr \<lparr>obj_productCount = Some (if model_calls tr = [] then 3 else 5),
                           obj_pageType = Some ''category'', obj_categories = None,
                           obj_confidence = Some 90, obj_evidence = None\<rparr>)"
  "db_create twice_env = (\<lambda>tr u s. Inr ())" "db_update twice_env = (\<lambda>tr n. Inr ())"
  by (simp_all add: twice_env_def)

lemma twice_prioritize:
  "prioritize [''https://example.test/shop/products''] =
     [''https://example.test/shop/products'', ''https://example.test/shop/products'']"
  by code_simp

lemma twice_findAllPages:
  "findAllPages twice_env tr ''https://example.test/shop/products'' =
     ([''https://example.test/shop/products'', ''https://example.test/shop/products''],
      tr @ [Scrape ''https://example.test/shop/products'',
            Fetch ''https://example.test/shop/products/sitemap.xml'',
            Fetch ''https://example.test/shop/products/sitemap_index.xml'',
            Fetch ''https://example.test/shop/products/product-sitemap.xml''])"
  unfolding findAllPages_def
  by (simp add: twice_sel shop_URL_def startsWith_def Let_def twice_prioritize)

lemma twice_page_first:
  "model_calls tr = [] \<Longrightarrow>
   analyzePageForProducts twice_env tr ''https://example.test/shop/products'' i n =
     (twice_page 3,
      tr @ [Scrape ''https://example.test/shop/products'',
            GenerateObject ''https://example.test/shop/products'' ''Unknown''
              (replicate 100 (CHR ''c''))])"
  by (simp add: analyzePageForProducts_def twice_sel content_missing_def twice_page_def
      or_default_def or_zero_def or_empty_def Let_def model_calls_def)

lemma twice_page_second:
  "model_calls tr \<noteq> [] \<Longrightarrow>
   fst (analyzePageForProducts twice_env tr ''https://example.test/shop/products'' i n) =
     twice_page 5"
  by (simp add: analyzePageForProducts_def twice_sel content_missing_def twice_page_def
      or_default_def or_zero_def or_empty_def Let_def model_calls_def)

lemma twice_run:
  "fst (analyzeWebsite twice_env [] ''example.test/shop/products'') =
     Inr (finalResult
            [''https://example.test/shop/products'', ''https://example.test/shop/products'']
            [twice_page 3, twice_page 5] 8)"
proof -
  have t: "trim ''example.test/shop/products'' = ''example.test/shop/products''"
    by (simp add: trim_def is_space_def)
  have v: "validateUrl twice_env ''example.test/shop/products'' =
      Inr ''https://example.test/shop/products''"
    by (simp add: validateUrl_def twice_sel shop_URL_def startsWith_def Let_def)
  let ?tr1 = "[DbCreate ''https://example.test/shop/products'' ''analyzing'',
               Scrape ''https://example.test/shop/products'',
               Fetch ''https://example.test/shop/products/sitemap.xml'',
               Fetch ''https://example.test/shop/products/sitemap_index.xml'',
               Fetch ''https://example.test/shop/products/product-sitemap.xml'']"
  have s: "status (twice_page c) = Completed" "productCount (twice_page c) = c"
      "categories (twice_page c) = []" for c
    by (simp_all add: twice_page_def)
  let ?tr2 = "[DbCreate ''https://example.test/shop/products'' ''analyzing'',
               Scrape ''https://example.test/shop/products'',
               Fetch ''https://example.test/shop/products/sitemap.xml'',
               Fetch ''https://example.test/shop/products/sitemap_index.xml'',
               Fetch ''https://example.test/shop/products/product-sitemap.xml'',
               Scrape ''https://example.test/shop/products'',
               GenerateObject ''https://example.test/shop/products'' ''Unknown''
                 (replicate 100 (CHR ''c''))]"
  have p1: "analyzePageForProducts twice_env ?tr1 ''https://example.test/shop/products'' i n =
      (twice_page 3, ?tr2)" for i n
    by (simp add: twice_page_first model_calls_def)
  have p2: "fst (analyzePageForProducts twice_env ?tr2 ''https://example.test/shop/products'' i n) =
      twice_page 5" for i n
    by (simp add: twice_page_second model_calls_def)
  have l: "fst (analyze_pages twice_env n
      [''https://example.test/shop/products'', ''https://example.test/shop/products''] 0
      ([], 0, [], ?tr1)) = [twice_page 3, twice_page 5]"
    "fst (snd (analyze_pages twice_env n
      [''https://example.test/shop/products'', ''https://example.test/shop/products''] 0
      ([], 0, [], ?tr1))) = 8" for n
    by (simp_all add: p1 p2 case_prod_beta Let_def s)
  show ?thesis
    by (simp add: analyzeWebsite_def t v twice_sel twice_findAllPages case_prod_beta Let_def l
        del: analyze_pages.simps)
qed

text \<open>
  Claim C10 asks for exactly one page result per discovered URL and for a page breakdown
  that maps the URL of every completed page result to its product count. An address that
  is both product-like and category-like is listed twice by the discovery: the crawl of
  such a page holds two completed page results for the one URL, with the counts 3 and 5
  the model gave, the total adds both, and the page breakdown keeps the later count only.
\<close>

theorem page_listed_twice_counted_twice:
  "fst (analyzeWebsite twice_env [] ''example.test/shop/products'') =
     Inr (finalResult
            [''https://example.test/shop/products'', ''https://example.test/shop/products'']
            [twice_page 3, twice_page 5] 8) \<and>
   sitemap (finalResult
            [''https://example.test/shop/products'', ''https://example.test/shop/products'']
            [twice_page 3, twice_page 5] 8) =
     [''https://example.test/shop/products'', ''https://example.test/shop/products''] \<and>
   map url (pageResults (finalResult
            [''https://example.test/shop/products'', ''https://example.test/shop/products'']
            [twice_page 3, twice_page 5] 8)) =
     [''https://example.test/shop/products'', ''https://example.test/shop/products''] \<and>
   map status (pageResults (finalResult
            [''https://example.test/shop/products'', ''https://example.test/shop/products'']
            [twice_page 3, twice_page 5] 8)) = [Completed, Completed] \<and>
   map productCount (pageResults (finalResult
            [''https://example.test/shop/products'', ''https://example.test/shop/products'']
            [twice_page 3, twice_page 5] 8)) = [3, 5] \<and>
   totalProductCount (finalResult
            [''https://example.test/shop/products'', ''https://example.test/shop/products'']
            [twice_page 3, twice_page 5] 8) = 8 \<and>
   details_pageBreakdown (details (finalResult
            [''https://example.test/shop/products'', ''https://example.test/shop/products'']
            [twice_page 3, twice_page 5] 8)) ''https://example.test/shop/products'' = Some 5"
  using twice_run
  by (simp add: finalResult_def Let_def twice_page_def breakdown_step_def)

end
